theory Spec2Isabelle
  imports Complex_Main "HOL-Library.Multiset" "HOL-Library.Log_Nat"
begin

section \<open>The multi-agent orchestrator (multi\_agent\_orchestrator.py)\<close>

text \<open>
  The orchestrator registers agent scripts, runs one script per task as a child process
  (\<open>spawn_agent\<close>), runs batches of tasks on a thread pool (\<open>orchestrate_parallel\<close>),
  chains three batches into a pipeline (\<open>run_feature_pipeline\<close>) and reports counts over
  the result history (\<open>get_summary\<close>).

  The Python methods mutate \<open>self\<close> and act on the operating system. Here every method
  takes the pair of the orchestrator object and the world and returns the new pair next
  to its result. What the outside answers (the file system, \<open>json.dumps\<close>, the child
  process, the clock, the order in which futures complete) is read from an environment
  \<open>env\<close>; the theorems hold for every environment.

  The methods print progress lines to the console. \<open>spawn_agent_printing\<close> is
  \<open>spawn_agent\<close> with its \<open>print\<close> statements, under a console that may refuse a line;
  the other definitions are the methods under a console that takes every line, where
  printing changes neither the object nor what a method returns.
\<close>

subsection \<open>Values, exceptions, records\<close>

text \<open>
  A task payload is a \<open>Dict[str, Any]\<close>: the JSON-like values the source builds, and
  \<open>PObject\<close> for any other Python object.
\<close>

datatype pyval =
    PNone
  | PBool bool
  | PInt int
  | PStr string
  | PList "pyval list"
  | PDict "(string \<times> pyval) list"
  | PObject nat

text \<open>
  The exceptions of the model are instances of \<open>Exception\<close>: \<open>subprocess.TimeoutExpired\<close>,
  which \<open>spawn_agent\<close> handles first, and any other one with its class and its message
  \<open>str(e)\<close>. \<open>KeyboardInterrupt\<close> and \<open>SystemExit\<close>, which are no instances of
  \<open>Exception\<close> and which no handler of the source catches, interrupt the program from
  outside; they are no outcome of an agent and stay outside the model.
\<close>

datatype exn_class = OSError | TypeError | ValueError

datatype py_exn = TimeoutExpired | Raised exn_class string

text \<open>\<open>subprocess.CompletedProcess\<close>, with \<open>capture_output=True, text=True\<close>.\<close>

record completed_process =
  returncode :: int
  stdout :: string
  stderr :: string

text \<open>The entry \<open>self.agents[name]\<close>, a dict with the keys script, description, active.\<close>

record agent_info =
  script :: string
  description :: string
  active :: bool

record AgentResult =
  agent_name :: string
  success :: bool
  "output" :: string
  artifacts :: "string list"
  timestamp :: string

text \<open>
  A task of a batch: a dict with the keys agent and data, as every batch built in the
  repository has them.
\<close>

record task =
  agent :: string
  data :: pyval

record orchestrator =
  workspace_path :: string
  agents :: "string \<rightharpoonup> agent_info"
  results :: "AgentResult list"

text \<open>
  The world records the effects: every call of \<open>subprocess.run\<close> with its argument
  vector and its timeout in seconds, and how often the clock was read (once per
  \<open>AgentResult\<close> created).
\<close>

record world =
  run_calls :: "(string list \<times> nat) list"
  clock_reads :: nat

type_synonym state = "orchestrator \<times> world"

text \<open>
  The environment: \<open>os.path.exists\<close>; \<open>json.dumps\<close>, which raises on a value it cannot
  serialise; \<open>subprocess.run\<close>, which answers the \<open>n\<close>-th call for an argument vector
  and a timeout with a completed process or an exception; \<open>datetime.now().isoformat()\<close>
  at the \<open>n\<close>-th reading; and for the batch started after \<open>n\<close> readings, the positions
  that fix the order in which its futures complete.
\<close>

record env =
  path_exists :: "string \<Rightarrow> bool"
  json_dumps :: "pyval \<Rightarrow> py_exn + string"
  subprocess_run :: "nat \<Rightarrow> string list \<Rightarrow> nat \<Rightarrow> py_exn + completed_process"
  now_isoformat :: "nat \<Rightarrow> string"
  completion :: "nat \<Rightarrow> nat list"

subsection \<open>AgentResult and the registry\<close>

text \<open>
  \<open>AgentResult.__init__\<close>: \<open>artifacts or []\<close> is the empty list for \<open>None\<close> and for an
  empty list; the timestamp is read from the clock.
\<close>

definition new_AgentResult ::
  "env \<Rightarrow> string \<Rightarrow> bool \<Rightarrow> string \<Rightarrow> string list option \<Rightarrow> world \<Rightarrow> AgentResult \<times> world" where
  "new_AgentResult e name ok out arts w =
     (\<lparr>agent_name = name, success = ok, output = out,
       artifacts = (case arts of None \<Rightarrow> [] | Some a \<Rightarrow> a),
       timestamp = now_isoformat e (clock_reads w)\<rparr>,
      w\<lparr>clock_reads := Suc (clock_reads w)\<rparr>)"

definition init_orchestrator :: "string \<Rightarrow> orchestrator" where
  "init_orchestrator path = \<lparr>workspace_path = path, agents = Map.empty, results = []\<rparr>"

definition register_agent :: "env \<Rightarrow> string \<Rightarrow> string \<Rightarrow> string \<Rightarrow> state \<Rightarrow> state" where
  "register_agent e name script_path descr s =
     (case s of (self, w) \<Rightarrow>
        (self\<lparr>agents := (agents self)(name \<mapsto>
           \<lparr>script = script_path, description = descr, active = path_exists e script_path\<rparr>)\<rparr>, w))"

subsection \<open>spawn\_agent\<close>

text \<open>
  The method under a console that takes every line. The body of the \<open>try\<close> block. An exception leaves with the world as it is at that
  point: a call of \<open>subprocess.run\<close> that raises has been made.
\<close>

definition spawn_try ::
  "env \<Rightarrow> agent_info \<Rightarrow> string \<Rightarrow> pyval \<Rightarrow> world \<Rightarrow> (py_exn + AgentResult) \<times> world" where
  "spawn_try e info name task_data w =
     (case json_dumps e task_data of
        Inl ex \<Rightarrow> (Inl ex, w)
      | Inr task_json \<Rightarrow>
          (let argv = [''python3'', script info, task_json];
               w1 = w\<lparr>run_calls := run_calls w @ [(argv, 60)]\<rparr>
           in case subprocess_run e (length (run_calls w)) argv 60 of
                Inl ex \<Rightarrow> (Inl ex, w1)
              | Inr result \<Rightarrow>
                  if returncode result = 0
                  then (case new_AgentResult e name True (stdout result) None w1 of
                          (r, w2) \<Rightarrow> (Inr r, w2))
                  else (case new_AgentResult e name False (stderr result) None w1 of
                          (r, w2) \<Rightarrow> (Inr r, w2))))"

text \<open>The two \<open>except\<close> clauses, in the order of the source.\<close>

fun spawn_except ::
  "env \<Rightarrow> string \<Rightarrow> (py_exn + AgentResult) \<times> world \<Rightarrow> (py_exn + AgentResult) \<times> world" where
  "spawn_except e name (Inr r, w) = (Inr r, w)"
| "spawn_except e name (Inl TimeoutExpired, w) =
     (case new_AgentResult e name False ''Agent execution timeout'' None w of
        (r, w1) \<Rightarrow> (Inr r, w1))"
| "spawn_except e name (Inl (Raised c msg), w) =
     (case new_AgentResult e name False msg None w of (r, w1) \<Rightarrow> (Inr r, w1))"

definition spawn_agent ::
  "env \<Rightarrow> string \<Rightarrow> pyval \<Rightarrow> state \<Rightarrow> (py_exn + AgentResult) \<times> state" where
  "spawn_agent e name task_data s =
     (case s of (self, w) \<Rightarrow>
        (case agents self name of
           None \<Rightarrow>
             (case new_AgentResult e name False (''Agent '' @ name @ '' not registered'') None w of
                (r, w1) \<Rightarrow> (Inr r, (self, w1)))
         | Some info \<Rightarrow>
             if \<not> active info
             then (case new_AgentResult e name False
                          (''Agent script '' @ script info @ '' not found'') None w of
                     (r, w1) \<Rightarrow> (Inr r, (self, w1)))
             else (case spawn_except e name (spawn_try e info name task_data w) of
                     (r, w1) \<Rightarrow> (r, (self, w1)))))"

subsection \<open>spawn\_agent with its print statements\<close>

text \<open>
  \<open>print\<close> encodes the line for the standard output and raises when that fails: a
  \<open>UnicodeEncodeError\<close>, which is a \<open>ValueError\<close>, when the encoding of the console has no
  code for a character, an \<open>OSError\<close> when the stream is closed. The console says for
  every line whether \<open>print\<close> raises, and what. Lines are strings of bytes; the symbols
  that open the lines of the source are written in UTF-8.
\<close>

type_synonym console = "string \<Rightarrow> (exn_class \<times> string) option"

definition py_print :: "console \<Rightarrow> string \<Rightarrow> py_exn option" where
  "py_print con line = (case con line of None \<Rightarrow> None | Some (c, msg) \<Rightarrow> Some (Raised c msg))"

text \<open>U+1F916, U+2705, U+274C, U+23F0, and U+26A0 with U+FE0F.\<close>

definition robot_face :: string where
  "robot_face = [CHR 0xF0, CHR 0x9F, CHR 0xA4, CHR 0x96]"

definition check_mark :: string where
  "check_mark = [CHR 0xE2, CHR 0x9C, CHR 0x85]"

definition cross_mark :: string where
  "cross_mark = [CHR 0xE2, CHR 0x9D, CHR 0x8C]"

definition alarm_clock :: string where
  "alarm_clock = [CHR 0xE2, CHR 0x8F, CHR 0xB0]"

definition warning_sign :: string where
  "warning_sign = [CHR 0xE2, CHR 0x9A, CHR 0xA0, CHR 0xEF, CHR 0xB8, CHR 0x8F]"

text \<open>
  The body of the \<open>try\<close> block with its two prints: what they raise is raised inside
  the block, after the child has run.
\<close>

definition spawn_try_printing ::
  "console \<Rightarrow> env \<Rightarrow> agent_info \<Rightarrow> string \<Rightarrow> pyval \<Rightarrow> world \<Rightarrow>
   (py_exn + AgentResult) \<times> world" where
  "spawn_try_printing con e info name task_data w =
     (case json_dumps e task_data of
        Inl ex \<Rightarrow> (Inl ex, w)
      | Inr task_json \<Rightarrow>
          (let argv = [''python3'', script info, task_json];
               w1 = w\<lparr>run_calls := run_calls w @ [(argv, 60)]\<rparr>
           in case subprocess_run e (length (run_calls w)) argv 60 of
                Inl ex \<Rightarrow> (Inl ex, w1)
              | Inr result \<Rightarrow>
                  if returncode result = 0
                  then (case py_print con
                               (check_mark @ '' '' @ name @ '' completed successfully'') of
                          Some ex \<Rightarrow> (Inl ex, w1)
                        | None \<Rightarrow>
                            (case new_AgentResult e name True (stdout result) None w1 of
                               (r, w2) \<Rightarrow> (Inr r, w2)))
                  else (case py_print con
                               (cross_mark @ '' '' @ name @ '' failed: '' @ stderr result) of
                          Some ex \<Rightarrow> (Inl ex, w1)
                        | None \<Rightarrow>
                            (case new_AgentResult e name False (stderr result) None w1 of
                               (r, w2) \<Rightarrow> (Inr r, w2)))))"

text \<open>
  The two \<open>except\<close> clauses with their prints: what a print raises inside a handler
  leaves the method.
\<close>

fun spawn_except_printing ::
  "console \<Rightarrow> env \<Rightarrow> string \<Rightarrow> (py_exn + AgentResult) \<times> world \<Rightarrow>
   (py_exn + AgentResult) \<times> world" where
  "spawn_except_printing con e name (Inr r, w) = (Inr r, w)"
| "spawn_except_printing con e name (Inl TimeoutExpired, w) =
     (case py_print con (alarm_clock @ '' '' @ name @ '' timed out'') of
        Some ex \<Rightarrow> (Inl ex, w)
      | None \<Rightarrow>
          (case new_AgentResult e name False ''Agent execution timeout'' None w of
             (r, w1) \<Rightarrow> (Inr r, w1)))"
| "spawn_except_printing con e name (Inl (Raised c msg), w) =
     (case py_print con (warning_sign @ '' '' @ name @ '' error: '' @ msg) of
        Some ex \<Rightarrow> (Inl ex, w)
      | None \<Rightarrow> (case new_AgentResult e name False msg None w of (r, w1) \<Rightarrow> (Inr r, w1)))"

text \<open>
  The method as the source has it: the first print stands before the \<open>try\<close> block, and
  what it raises leaves the method before the child is started.
\<close>

definition spawn_agent_printing ::
  "console \<Rightarrow> env \<Rightarrow> string \<Rightarrow> pyval \<Rightarrow> state \<Rightarrow> (py_exn + AgentResult) \<times> state" where
  "spawn_agent_printing con e name task_data s =
     (case s of (self, w) \<Rightarrow>
        (case agents self name of
           None \<Rightarrow>
             (case new_AgentResult e name False (''Agent '' @ name @ '' not registered'') None w of
                (r, w1) \<Rightarrow> (Inr r, (self, w1)))
         | Some info \<Rightarrow>
             if \<not> active info
             then (case new_AgentResult e name False
                          (''Agent script '' @ script info @ '' not found'') None w of
                     (r, w1) \<Rightarrow> (Inr r, (self, w1)))
             else (case py_print con
                          (robot_face @ '' Spawning '' @ name @ '': '' @ description info) of
                     Some ex \<Rightarrow> (Inl ex, (self, w))
                   | None \<Rightarrow>
                       (case spawn_except_printing con e name
                               (spawn_try_printing con e info name task_data w) of
                          (r, w1) \<Rightarrow> (r, (self, w1))))))"

subsection \<open>orchestrate\_parallel\<close>

text \<open>
  The constructor of \<open>concurrent.futures.ThreadPoolExecutor\<close> of Python's standard
  library raises \<open>ValueError\<close> when \<open>max_workers\<close> is not positive.
\<close>

definition ThreadPoolExecutor :: "int \<Rightarrow> py_exn + nat" where
  "ThreadPoolExecutor max_workers =
     (if max_workers \<le> 0 then Inl (Raised ValueError ''max_workers must be greater than 0'')
      else Inr (nat max_workers))"

text \<open>
  \<open>executor.submit(self.spawn_agent, task["agent"], task["data"])\<close> for every task, in
  the order of the batch. Each future holds what its call of \<open>spawn_agent\<close> returned or
  raised. The calls read \<open>self.agents\<close> only, so running them one after the other gives
  the futures that the threads give.
\<close>

fun run_tasks :: "env \<Rightarrow> task list \<Rightarrow> state \<Rightarrow> (py_exn + AgentResult) list \<times> state" where
  "run_tasks e [] s = ([], s)"
| "run_tasks e (t # ts) s =
     (case spawn_agent e (agent t) (data t) s of
        (r, s1) \<Rightarrow> (case run_tasks e ts s1 of (rs, s2) \<Rightarrow> (r # rs, s2)))"

text \<open>
  \<open>as_completed(futures)\<close> yields the futures in the order in which they complete,
  which the environment fixes: the first position says where the first future lands
  among the futures submitted after it, and so on. Every order of the batch is the
  image of some positions; without positions it is the order of submission.
\<close>

fun completion_order :: "nat list \<Rightarrow> 'a list \<Rightarrow> 'a list" where
  "completion_order ps [] = []"
| "completion_order ps (x # xs) =
     (let rest = completion_order (tl ps) xs;
          i = (case ps of [] \<Rightarrow> 0 | p # _ \<Rightarrow> p mod Suc (length rest))
      in take i rest @ x # drop i rest)"

text \<open>
  The loop over the completed futures: \<open>future.result()\<close> returns the result or raises
  what the call raised, which ends the loop; a result is appended to the list that is
  returned and to \<open>self.results\<close>.
\<close>

fun collect ::
  "(py_exn + AgentResult) list \<Rightarrow> AgentResult list \<Rightarrow> orchestrator \<Rightarrow>
   (py_exn + AgentResult list) \<times> orchestrator" where
  "collect [] rs self = (Inr rs, self)"
| "collect (Inl ex # futures) rs self = (Inl ex, self)"
| "collect (Inr result # futures) rs self =
     collect futures (rs @ [result]) (self\<lparr>results := results self @ [result]\<rparr>)"

definition orchestrate_parallel ::
  "env \<Rightarrow> task list \<Rightarrow> state \<Rightarrow> (py_exn + AgentResult list) \<times> state" where
  "orchestrate_parallel e tasks s =
     (case ThreadPoolExecutor (min (int (length tasks)) 4) of
        Inl ex \<Rightarrow> (Inl ex, s)
      | Inr max_workers \<Rightarrow>
          (case run_tasks e tasks s of
             (futures, (self1, w1)) \<Rightarrow>
               (case collect (completion_order (completion e (clock_reads (snd s))) futures)
                       [] self1 of
                  (r, self2) \<Rightarrow> (r, (self2, w1)))))"

subsection \<open>run\_feature\_pipeline\<close>

definition planning_tasks :: "orchestrator \<Rightarrow> string \<Rightarrow> task list" where
  "planning_tasks self feature_request =
     [\<lparr>agent = ''planner'',
       data = PDict [(''request'', PStr feature_request),
                     (''workspace'', PStr (workspace_path self))]\<rparr>]"

definition implementation_tasks :: "task list" where
  "implementation_tasks =
     [\<lparr>agent = ''refactor'', data = PDict [(''target'', PStr ''code_quality'')]\<rparr>,
      \<lparr>agent = ''test_gen'', data = PDict [(''coverage_target'', PInt 80)]\<rparr>,
      \<lparr>agent = ''doc_gen'', data = PDict [(''format'', PStr ''markdown'')]\<rparr>]"

definition review_tasks :: "AgentResult list \<Rightarrow> task list" where
  "review_tasks impl_results =
     [\<lparr>agent = ''reviewer'',
       data = PDict [(''artifacts'',
                PList (map (\<lambda>r. PList (map PStr (artifacts r))) impl_results))]\<rparr>]"

definition run_feature_pipeline ::
  "env \<Rightarrow> string \<Rightarrow> state \<Rightarrow> (py_exn + bool) \<times> state" where
  "run_feature_pipeline e feature_request s =
     (case orchestrate_parallel e (planning_tasks (fst s) feature_request) s of
        (Inl ex, s1) \<Rightarrow> (Inl ex, s1)
      | (Inr planning_results, s1) \<Rightarrow>
          if \<not> list_all success planning_results then (Inr False, s1)
          else
            (case orchestrate_parallel e implementation_tasks s1 of
               (Inl ex, s2) \<Rightarrow> (Inl ex, s2)
             | (Inr impl_results, s2) \<Rightarrow>
                 (case orchestrate_parallel e (review_tasks impl_results) s2 of
                    (Inl ex, s3) \<Rightarrow> (Inl ex, s3)
                  | (Inr review_results, s3) \<Rightarrow>
                      (Inr (list_all success (impl_results @ review_results)), s3))))"

subsection \<open>get\_summary\<close>

text \<open>
  The rate is a Python float. A float is a binary64 number, here its exact value as a
  rational. \<open>successful / total\<close> is the quotient of the two integers rounded to the
  nearest float, and \<open>* 100\<close> rounds the product again; both round ties to the even
  significand. \<open>float_round\<close> is that rounding for a rational below the overflow
  threshold, which a rate, at most 100, does not reach: \<open>exponent\<close> is the power of two
  at or below a positive rational, a float has 53 significant bits, and below
  \<open>2 powi (- 1022)\<close> the spacing stays that of the smallest normal numbers.
\<close>

definition round_half_even :: "rat \<Rightarrow> int" where
  "round_half_even x =
     (let f = \<lfloor>x\<rfloor>; d = x - of_int f
      in if d < 1 / 2 then f else if 1 / 2 < d then f + 1 else if even f then f else f + 1)"

definition exponent :: "rat \<Rightarrow> int" where
  "exponent x =
     (case quotient_of x of
        (n, d) \<Rightarrow>
          (let g = bitlen n - bitlen d
           in if 2 powi g \<le> x then g else g - 1))"

definition float_round :: "rat \<Rightarrow> rat" where
  "float_round x =
     (if x = 0 then 0
      else (let ulp = 2 powi (max (exponent \<bar>x\<bar>) (- 1022) - 52)
            in sgn x * (of_int (round_half_even (\<bar>x\<bar> / ulp)) * ulp)))"

text \<open>The dict that \<open>get_summary\<close> returns. The counts are Python integers.\<close>

record summary =
  total_agents :: int
  successful :: int
  failed :: int
  success_rate :: rat
  summary_results :: "(string \<times> bool \<times> string) list"

definition get_summary :: "state \<Rightarrow> summary \<times> state" where
  "get_summary s =
     (let total = int (length (results (fst s)));
          successful = sum_list (map (\<lambda>r. 1) (filter success (results (fst s))))
      in (\<lparr>total_agents = total,
           successful = successful,
           failed = total - successful,
           success_rate =
             (if total > 0
              then float_round (float_round (of_int successful / of_int total) * 100)
              else 0),
           summary_results =
             map (\<lambda>r. (agent_name r, success r, timestamp r)) (results (fst s))\<rparr>,
          s))"

subsection \<open>A scenario for the examples\<close>

text \<open>
  An environment with six scripts: one that prints hello and exits with 0, one that
  writes boom to the standard error and exits with 1, one that exits with 1 after
  writing to the standard output only, one that needs 45 seconds, one that never ends,
  and any other path, which cannot be started. Only \<open>missing.py\<close> does not exist. The
  scripts ignore their argument, and the serialiser of the scenario does not render it.
\<close>

definition demo_dumps :: "pyval \<Rightarrow> py_exn + string" where
  "demo_dumps v =
     (case v of
        PObject n \<Rightarrow> Inl (Raised TypeError ''Object of type object is not JSON serializable'')
      | _ \<Rightarrow> Inr ''{}'')"

definition demo_run :: "nat \<Rightarrow> string list \<Rightarrow> nat \<Rightarrow> py_exn + completed_process" where
  "demo_run n argv timeout =
     (let path = argv ! 1 in
      if path = ''echo_ok.py''
      then Inr \<lparr>returncode = 0, stdout = ''hello'', stderr = ''''\<rparr>
      else if path = ''echo_fail.py''
      then Inr \<lparr>returncode = 1, stdout = '''', stderr = ''boom''\<rparr>
      else if path = ''quiet_fail.py''
      then Inr \<lparr>returncode = 1, stdout = ''bad input'', stderr = ''''\<rparr>
      else if path = ''sleep45.py''
      then (if timeout < 45 then Inl TimeoutExpired
            else Inr \<lparr>returncode = 0, stdout = ''done'', stderr = ''''\<rparr>)
      else if path = ''hang.py'' then Inl TimeoutExpired
      else Inl (Raised OSError ''Permission denied''))"

definition demo_env :: env where
  "demo_env =
     \<lparr>path_exists = (\<lambda>p. p \<noteq> ''missing.py''),
      json_dumps = demo_dumps,
      subprocess_run = demo_run,
      now_isoformat = (\<lambda>n. ''2024-01-01T00:00:00''),
      completion = (\<lambda>n. [2, 1])\<rparr>"

definition demo_world :: world where
  "demo_world = \<lparr>run_calls = [], clock_reads = 0\<rparr>"

text \<open>An orchestrator with one agent per script of the scenario.\<close>

definition demo_state :: state where
  "demo_state =
     register_agent demo_env ''echo_ok'' ''echo_ok.py'' ''prints hello''
       (register_agent demo_env ''echo_fail'' ''echo_fail.py'' ''fails with boom''
         (register_agent demo_env ''quiet_fail'' ''quiet_fail.py'' ''fails on stdout''
           (register_agent demo_env ''sleeper'' ''sleep45.py'' ''needs 45 seconds''
             (register_agent demo_env ''hanger'' ''hang.py'' ''never ends''
               (register_agent demo_env ''ghost'' ''missing.py'' ''no script''
                 (init_orchestrator ''.'', demo_world))))))"

text \<open>
  The five agents of the pipeline; the planner and the refactoring agent run the
  script given for them, the others succeed.
\<close>

definition pipeline_state :: "string \<Rightarrow> string \<Rightarrow> state" where
  "pipeline_state planner_script refactor_script =
     register_agent demo_env ''planner'' planner_script ''Task planning and breakdown''
       (register_agent demo_env ''refactor'' refactor_script ''Code refactoring and optimization''
         (register_agent demo_env ''test_gen'' ''echo_ok.py'' ''Automated test generation''
           (register_agent demo_env ''doc_gen'' ''echo_ok.py'' ''Documentation generation''
             (register_agent demo_env ''reviewer'' ''echo_ok.py'' ''Code review and quality check''
               (init_orchestrator ''.'', demo_world)))))"

text \<open>The batch of two tasks: one for the script that succeeds, one for the script that fails.\<close>

definition demo_batch :: "task list" where
  "demo_batch = [\<lparr>agent = ''echo_ok'', data = PDict []\<rparr>, \<lparr>agent = ''echo_fail'', data = PDict []\<rparr>]"

text \<open>
  A console with the ASCII encoding: \<open>print\<close> raises for a line with a byte of 128 or
  more.
\<close>

definition ascii_console :: console where
  "ascii_console line =
     (if list_all (\<lambda>c. of_char c < (128::nat)) line then None
      else Some (ValueError,
        ''ascii codec cannot encode character in position 0: ordinal not in range(128)''))"

text \<open>An orchestrator whose history has \<open>k\<close> successful results and then \<open>m\<close> failed ones.\<close>

definition demo_history :: "nat \<Rightarrow> nat \<Rightarrow> orchestrator" where
  "demo_history k m =
     (init_orchestrator ''.'')
       \<lparr>results :=
          replicate k \<lparr>agent_name = ''echo_ok'', success = True, output = ''hello'',
                       artifacts = [], timestamp = ''2024-01-01T00:00:00''\<rparr> @
          replicate m \<lparr>agent_name = ''echo_fail'', success = False, output = ''boom'',
                       artifacts = [], timestamp = ''2024-01-01T00:00:00''\<rparr>\<rparr>"

section \<open>Properties\<close>

lemmas demo_defs = demo_state_def pipeline_state_def register_agent_def init_orchestrator_def
  demo_env_def demo_run_def demo_dumps_def demo_world_def

lemmas spawn_defs = spawn_agent_def spawn_try_def new_AgentResult_def

lemmas batch_defs = orchestrate_parallel_def ThreadPoolExecutor_def Let_def

subsection \<open>One call of spawn\_agent\<close>

text \<open>
  The \<open>try\<close> block makes at most one call of \<open>subprocess.run\<close>, with the timeout 60.
  A call of \<open>spawn_agent\<close> returns a result on every branch, reads the clock once and
  leaves the orchestrator as it is.
\<close>

lemma spawn_try_shape:
  "\<exists>x w'. spawn_try e info name d w = (x, w') \<and>
     (run_calls w' = run_calls w \<or> (\<exists>argv. run_calls w' = run_calls w @ [(argv, 60)])) \<and>
     (case x of Inl ex \<Rightarrow> clock_reads w' = clock_reads w
      | Inr r \<Rightarrow> clock_reads w' = Suc (clock_reads w) \<and> agent_name r = name \<and> artifacts r = [])"
  unfolding spawn_try_def new_AgentResult_def Let_def
  by (auto split: sum.splits)

lemma spawn_agent_shape:
  "\<exists>r w'. spawn_agent e name d (self, w) = (Inr r, (self, w')) \<and>
     agent_name r = name \<and> artifacts r = [] \<and>
     clock_reads w' = Suc (clock_reads w) \<and>
     (run_calls w' = run_calls w \<or> (\<exists>argv. run_calls w' = run_calls w @ [(argv, 60)]))"
proof (cases "agents self name")
  case None
  then show ?thesis by (simp add: spawn_agent_def new_AgentResult_def)
next
  case (Some info)
  show ?thesis
  proof (cases "active info")
    case False
    with Some show ?thesis by (simp add: spawn_agent_def new_AgentResult_def)
  next
    case True
    obtain x w1 where t: "spawn_try e info name d w = (x, w1)"
      and calls: "run_calls w1 = run_calls w \<or> (\<exists>argv. run_calls w1 = run_calls w @ [(argv, 60)])"
      and x: "case x of Inl ex \<Rightarrow> clock_reads w1 = clock_reads w
          | Inr r \<Rightarrow> clock_reads w1 = Suc (clock_reads w) \<and> agent_name r = name \<and> artifacts r = []"
      using spawn_try_shape [of e info name d w] by blast
    from Some True t calls x show ?thesis
      by (cases x; cases "projl x")
         (auto simp: spawn_agent_def new_AgentResult_def)
  qed
qed

text \<open>
  Under a console that takes every line the prints do nothing, and
  \<open>spawn_agent_printing\<close> is \<open>spawn_agent\<close>.
\<close>

lemma spawn_try_printing_accepted:
  "(\<forall>line. con line = None) \<Longrightarrow>
     spawn_try_printing con e info name d w = spawn_try e info name d w"
  by (simp add: spawn_try_printing_def spawn_try_def py_print_def Let_def split: sum.splits)

lemma spawn_except_printing_accepted:
  "(\<forall>line. con line = None) \<Longrightarrow>
     spawn_except_printing con e name x = spawn_except e name x"
  by (cases "(e, name, x)" rule: spawn_except.cases) (simp_all add: py_print_def)

lemma spawn_agent_printing_accepted:
  "(\<forall>line. con line = None) \<Longrightarrow>
     spawn_agent_printing con e name d s = spawn_agent e name d s"
  by (simp add: spawn_agent_printing_def spawn_agent_def py_print_def
        spawn_try_printing_accepted spawn_except_printing_accepted
      split: prod.splits option.splits)

text \<open>
  Then it returns a result, as it does under any console for an agent that is not
  registered or not active, for which nothing is printed.
\<close>

lemma spawn_agent_printing_returns:
  assumes "(\<forall>line. con line = None) \<or> agents (fst s) name = None \<or>
           (\<exists>info. agents (fst s) name = Some info \<and> \<not> active info)"
  shows "\<exists>r s'. spawn_agent_printing con e name task_data s = (Inr r, s') \<and> agent_name r = name"
proof -
  obtain self w where s: "s = (self, w)" by (cases s)
  from assms consider "\<forall>line. con line = None" | "agents self name = None"
    | info where "agents self name = Some info" "\<not> active info"
    unfolding s by auto
  then show ?thesis
  proof cases
    case 1
    then show ?thesis
      using spawn_agent_shape [of e name task_data self w]
      by (auto simp: spawn_agent_printing_accepted s)
  next
    case 2
    then show ?thesis
      by (simp add: spawn_agent_printing_def new_AgentResult_def s)
  next
    case 3
    then show ?thesis
      by (simp add: spawn_agent_printing_def new_AgentResult_def s)
  qed
qed

text \<open>
  C1: \<open>spawn_agent\<close> is to return an \<open>AgentResult\<close> for every agent name, payload and
  state of the agent and to raise nothing; the handlers of its \<open>try\<close> block turn every
  exception of the launch into a result. The source misses its own prints: the first
  one stands before the \<open>try\<close> block. For a registered, active agent under a console
  with the ASCII encoding that print raises, and the exception leaves \<open>spawn_agent\<close>:
  no child is started and no result is created.
\<close>

theorem spawn_agent_print_raises:
  "agents (fst demo_state) ''echo_ok'' =
      Some \<lparr>script = ''echo_ok.py'', description = ''prints hello'', active = True\<rparr> \<and>
   py_print ascii_console (robot_face @ '' Spawning echo_ok: prints hello'') =
      Some (Raised ValueError
        ''ascii codec cannot encode character in position 0: ordinal not in range(128)'') \<and>
   spawn_agent_printing ascii_console demo_env ''echo_ok'' (PDict []) demo_state =
     (Inl (Raised ValueError
        ''ascii codec cannot encode character in position 0: ordinal not in range(128)''),
      demo_state)"
  by (simp add: spawn_agent_printing_def py_print_def ascii_console_def robot_face_def demo_defs)

text \<open>
  C6, as the code has it: when the child exits with a code other than 0, the result has
  \<open>success = False\<close> and its output is the captured standard error, whatever it is; the
  standard output is not used.
\<close>

theorem spawn_agent_nonzero_exit:
  assumes "agents self name = Some info" and "active info"
    and "json_dumps e task_data = Inr task_json"
    and "subprocess_run e (length (run_calls w)) [''python3'', script info, task_json] 60 = Inr result"
    and "returncode result \<noteq> 0"
  shows "fst (spawn_agent e name task_data (self, w)) =
           Inr \<lparr>agent_name = name, success = False, output = stderr result, artifacts = [],
                timestamp = now_isoformat e (clock_reads w)\<rparr>"
  using assms by (simp add: spawn_agent_def spawn_try_def new_AgentResult_def)

theorem spawn_agent_nonzero_exit_witness:
  "agents (fst demo_state) ''echo_fail'' =
      Some \<lparr>script = ''echo_fail.py'', description = ''fails with boom'', active = True\<rparr> \<and>
   json_dumps demo_env (PDict []) = Inr ''{}'' \<and>
   subprocess_run demo_env 0 [''python3'', ''echo_fail.py'', ''{}''] 60 =
      Inr \<lparr>returncode = 1, stdout = '''', stderr = ''boom''\<rparr> \<and>
   fst (spawn_agent demo_env ''echo_fail'' (PDict []) (fst demo_state, demo_world)) =
      Inr \<lparr>agent_name = ''echo_fail'', success = False, output = ''boom'', artifacts = [],
           timestamp = ''2024-01-01T00:00:00''\<rparr>"
proof -
  have a: "agents (fst demo_state) ''echo_fail'' =
      Some \<lparr>script = ''echo_fail.py'', description = ''fails with boom'', active = True\<rparr>"
    by (simp add: demo_defs)
  have d: "json_dumps demo_env (PDict []) = Inr ''{}''"
    by (simp add: demo_defs)
  have r: "subprocess_run demo_env (length (run_calls demo_world))
      [''python3'', script \<lparr>script = ''echo_fail.py'', description = ''fails with boom'', active = True\<rparr>, ''{}''] 60 =
      Inr \<lparr>returncode = 1, stdout = '''', stderr = ''boom''\<rparr>"
    by (simp add: demo_defs)
  show ?thesis
    using spawn_agent_nonzero_exit [OF a _ d r] a d r by (simp add: demo_defs)
qed

text \<open>
  C6 as stated fails: the script \<open>quiet_fail.py\<close> exits with 1 after writing to the
  standard output only, and the output of the result is the empty standard error, not
  the standard output.
\<close>

theorem nonzero_exit_stdout_fallback_counterexample:
  "subprocess_run demo_env 0 [''python3'', ''quiet_fail.py'', ''{}''] 60 =
      Inr \<lparr>returncode = 1, stdout = ''bad input'', stderr = ''''\<rparr> \<and>
   spawn_agent demo_env ''quiet_fail'' (PDict []) demo_state =
     (Inr \<lparr>agent_name = ''quiet_fail'', success = False, output = '''', artifacts = [],
           timestamp = ''2024-01-01T00:00:00''\<rparr>,
      fst demo_state,
      \<lparr>run_calls = [([''python3'', ''quiet_fail.py'', ''{}''], 60)], clock_reads = 1\<rparr>)"
  by (simp add: spawn_agent_def spawn_try_def new_AgentResult_def demo_defs)

subsection \<open>Batches\<close>

text \<open>
  The order of completion is a rearrangement of the futures, and commutes with a map
  over them.
\<close>

lemma mset_insert_at: "mset (take i ys @ x # drop i ys) = add_mset x (mset ys)"
proof -
  have "mset (take i ys) + mset (drop i ys) = mset ys"
    by (metis append_take_drop_id mset_append)
  then show ?thesis by simp
qed

lemma completion_order_mset: "mset (completion_order ps xs) = mset xs"
  by (induction xs arbitrary: ps) (simp_all add: Let_def mset_insert_at del: mset_append)

lemma completion_order_length: "length (completion_order ps xs) = length xs"
  by (induction xs arbitrary: ps) (simp_all add: Let_def)

lemma completion_order_map: "completion_order ps (map f xs) = map f (completion_order ps xs)"
  by (induction xs arbitrary: ps) (simp_all add: Let_def take_map drop_map split: list.splits)

lemma completion_order_single: "completion_order ps [x] = [x]"
  by (simp add: Let_def split: list.splits)

text \<open>Every rearrangement of the futures is the order of completion for some positions.\<close>

lemma completion_order_any:
  "mset ys = mset xs \<Longrightarrow> \<exists>ps. completion_order ps xs = ys"
proof (induction xs arbitrary: ys)
  case Nil
  then show ?case by simp
next
  case (Cons x xs)
  then have "x \<in> set ys"
    by (metis list.set_intros(1) mset_eq_setD)
  then obtain as bs where ys: "ys = as @ x # bs"
    by (meson split_list)
  with Cons.prems have "mset (as @ bs) = mset xs"
    by simp
  then obtain ps where ps: "completion_order ps xs = as @ bs"
    using Cons.IH by blast
  have "completion_order (length as # ps) (x # xs) = as @ x # bs"
    by (simp add: ps Let_def)
  then show ?case unfolding ys by blast
qed

text \<open>
  When no future raises, the loop appends every result to the returned list and to the
  history.
\<close>

lemma collect_results:
  "collect (map Inr rs) acc self = (Inr (acc @ rs), self\<lparr>results := results self @ rs\<rparr>)"
  by (induction rs arbitrary: acc self) simp_all

text \<open>
  The calls of a batch: one result per task, in the order of the batch, one reading of
  the clock each, at most one call of \<open>subprocess.run\<close> each.
\<close>

lemma run_tasks_shape:
  "\<exists>rs w'. run_tasks e tasks (self, w) = (map Inr rs, (self, w')) \<and>
     map agent_name rs = map agent tasks \<and>
     list_all (\<lambda>r. artifacts r = []) rs \<and>
     clock_reads w' = clock_reads w + length tasks \<and>
     (\<exists>calls. run_calls w' = run_calls w @ calls \<and> list_all (\<lambda>c. snd c = 60) calls \<and>
        length calls \<le> length tasks)"
proof (induction tasks arbitrary: w)
  case Nil
  show ?case by simp
next
  case (Cons t ts)
  obtain r w1 where sp: "spawn_agent e (agent t) (data t) (self, w) = (Inr r, (self, w1))"
    and r: "agent_name r = agent t" "artifacts r = []"
    and c1: "clock_reads w1 = Suc (clock_reads w)"
    and k1: "run_calls w1 = run_calls w \<or> (\<exists>argv. run_calls w1 = run_calls w @ [(argv, 60)])"
    using spawn_agent_shape [of e "agent t" "data t" self w] by blast
  obtain rs w2 calls where rt: "run_tasks e ts (self, w1) = (map Inr rs, (self, w2))"
    and rs: "map agent_name rs = map agent ts" "list_all (\<lambda>r. artifacts r = []) rs"
    and c2: "clock_reads w2 = clock_reads w1 + length ts"
    and k2: "run_calls w2 = run_calls w1 @ calls" "list_all (\<lambda>c. snd c = 60) calls"
      "length calls \<le> length ts"
    using Cons.IH [of w1] by blast
  have run: "run_tasks e (t # ts) (self, w) = (map Inr (r # rs), (self, w2))"
    using sp rt by simp
  from k1 obtain first where f: "run_calls w1 = run_calls w @ first"
    "list_all (\<lambda>c. snd c = 60) first" "length first \<le> 1"
  proof
    assume "run_calls w1 = run_calls w"
    then show thesis using that [of "[]"] by simp
  next
    assume "\<exists>argv. run_calls w1 = run_calls w @ [(argv, 60)]"
    then obtain argv where "run_calls w1 = run_calls w @ [(argv, 60)]" ..
    then show thesis using that [of "[(argv, 60)]"] by simp
  qed
  have calls: "run_calls w2 = run_calls w @ (first @ calls)"
    "list_all (\<lambda>c. snd c = 60) (first @ calls)" "length (first @ calls) \<le> length (t # ts)"
    using f k2 by simp_all
  show ?case
    using run r rs c1 c2 calls by (intro exI [of _ "r # rs"] exI [of _ w2]) auto
qed

text \<open>
  A batch that is not empty returns its results, a rearrangement of one result per
  task, and appends them to the history in the order in which it returns them.
\<close>

lemma orchestrate_parallel_shape:
  assumes "tasks \<noteq> []"
  shows "\<exists>rs w'. orchestrate_parallel e tasks (self, w) =
            (Inr rs, (self\<lparr>results := results self @ rs\<rparr>, w')) \<and>
     mset (map agent_name rs) = mset (map agent tasks) \<and>
     length rs = length tasks \<and>
     list_all (\<lambda>r. artifacts r = []) rs \<and>
     clock_reads w' = clock_reads w + length tasks \<and>
     (\<exists>calls. run_calls w' = run_calls w @ calls \<and> list_all (\<lambda>c. snd c = 60) calls \<and>
        length calls \<le> length tasks)"
proof -
  obtain rs w' where rt: "run_tasks e tasks (self, w) = (map Inr rs, (self, w'))"
    and rs: "map agent_name rs = map agent tasks" "list_all (\<lambda>r. artifacts r = []) rs"
    and rest: "clock_reads w' = clock_reads w + length tasks"
      "\<exists>calls. run_calls w' = run_calls w @ calls \<and> list_all (\<lambda>c. snd c = 60) calls \<and>
        length calls \<le> length tasks"
    using run_tasks_shape [of e tasks self w] by blast
  define cs where "cs = completion_order (completion e (clock_reads w)) rs"
  have "0 < min (int (length tasks)) 4"
    using assms by simp
  then obtain n where pool: "ThreadPoolExecutor (min (int (length tasks)) 4) = Inr n"
    by (simp add: ThreadPoolExecutor_def)
  have "orchestrate_parallel e tasks (self, w) =
          (Inr cs, (self\<lparr>results := results self @ cs\<rparr>, w'))"
    using pool rt collect_results [of cs "[]" self]
    by (simp add: orchestrate_parallel_def completion_order_map cs_def)
  moreover have m: "mset cs = mset rs"
    by (simp add: cs_def completion_order_mset)
  then have "mset (map agent_name cs) = mset (map agent tasks)"
    using rs(1) by (metis mset_map)
  moreover have "length cs = length tasks"
    using rs(1) by (metis cs_def completion_order_length length_map)
  moreover have "list_all (\<lambda>r. artifacts r = []) cs"
    using rs(2) mset_eq_setD [OF m] by (simp add: list_all_iff)
  ultimately show ?thesis using rest by blast
qed

lemma orchestrate_parallel_empty:
  "orchestrate_parallel e [] s = (Inl (Raised ValueError ''max_workers must be greater than 0''), s)"
  by (simp add: orchestrate_parallel_def ThreadPoolExecutor_def)

lemma orchestrate_parallel_registry:
  "agents (fst (snd (orchestrate_parallel e tasks (self, w)))) = agents self"
proof (cases "tasks = []")
  case True
  then show ?thesis by (simp add: orchestrate_parallel_empty)
next
  case False
  then show ?thesis using orchestrate_parallel_shape [of tasks e self w] by auto
qed

lemma orchestrate_parallel_single:
  assumes "spawn_agent e (agent t) (data t) (self, w) = (Inr r, (self, w1))"
  shows "orchestrate_parallel e [t] (self, w) = (Inr [r], (self\<lparr>results := results self @ [r]\<rparr>, w1))"
  using assms
  by (simp add: orchestrate_parallel_def ThreadPoolExecutor_def completion_order_single)

text \<open>
  C10: For the empty batch \<open>orchestrate_parallel\<close> raises the \<open>ValueError\<close> of a thread
  pool with \<open>min(0, 4) = 0\<close> workers instead of returning an empty list, and leaves the
  state as it is; for every batch that is not empty it returns a list of results.
\<close>

theorem orchestrate_parallel_empty_raises:
  "orchestrate_parallel e [] s = (Inl (Raised ValueError ''max_workers must be greater than 0''), s) \<and>
   (\<forall>tasks. tasks \<noteq> [] \<longrightarrow> (\<exists>rs s'. orchestrate_parallel e tasks s = (Inr rs, s')))"
proof -
  obtain self w where s: "s = (self, w)" by (cases s)
  show ?thesis
    using orchestrate_parallel_shape [of _ e self w]
    unfolding s by (simp add: orchestrate_parallel_empty) blast
qed

theorem orchestrate_parallel_empty_raises_witness:
  "orchestrate_parallel demo_env [] demo_state =
     (Inl (Raised ValueError ''max_workers must be greater than 0''), demo_state) \<and>
   [\<lparr>agent = ''echo_ok'', data = PDict []\<rparr>] \<noteq> [] \<and>
   (\<exists>rs s'. orchestrate_parallel demo_env [\<lparr>agent = ''echo_ok'', data = PDict []\<rparr>] demo_state = (Inr rs, s'))"
  using orchestrate_parallel_empty_raises [of demo_env demo_state] by simp

subsection \<open>The pipeline\<close>

lemma planning_tasks_nonempty: "planning_tasks self f \<noteq> []"
  by (simp add: planning_tasks_def)

lemma implementation_tasks_nonempty: "implementation_tasks \<noteq> []"
  by (simp add: implementation_tasks_def)

lemma review_tasks_nonempty: "review_tasks rs \<noteq> []"
  by (simp add: review_tasks_def)

text \<open>
  The pipeline never raises: its three batches are not empty. It appends to the history
  one result for every reading of the clock, and all its calls of \<open>subprocess.run\<close> have
  the timeout 60.
\<close>

lemma run_feature_pipeline_shape:
  "\<exists>b rs w'. run_feature_pipeline e f (self, w) =
       (Inr b, (self\<lparr>results := results self @ rs\<rparr>, w')) \<and>
     clock_reads w' = clock_reads w + length rs \<and>
     (\<exists>calls. run_calls w' = run_calls w @ calls \<and> list_all (\<lambda>c. snd c = 60) calls)"
proof -
  obtain prs w1 calls1 where
    p: "orchestrate_parallel e (planning_tasks self f) (self, w) =
          (Inr prs, (self\<lparr>results := results self @ prs\<rparr>, w1))"
    and pl: "length prs = length (planning_tasks self f)"
    and pc: "clock_reads w1 = clock_reads w + length (planning_tasks self f)"
    and pk: "run_calls w1 = run_calls w @ calls1" "list_all (\<lambda>c. snd c = 60) calls1"
    using orchestrate_parallel_shape [OF planning_tasks_nonempty, of e self f self w] by blast
  define self1 where "self1 = self\<lparr>results := results self @ prs\<rparr>"
  show ?thesis
  proof (cases "list_all success prs")
    case False
    then have "run_feature_pipeline e f (self, w) = (Inr False, (self1, w1))"
      using p by (simp add: run_feature_pipeline_def self1_def)
    then show ?thesis using pl pc pk unfolding self1_def by auto
  next
    case True
    obtain irs w2 calls2 where
      i: "orchestrate_parallel e implementation_tasks (self1, w1) =
            (Inr irs, (self1\<lparr>results := results self1 @ irs\<rparr>, w2))"
      and il: "length irs = length implementation_tasks"
      and ic: "clock_reads w2 = clock_reads w1 + length implementation_tasks"
      and ik: "run_calls w2 = run_calls w1 @ calls2" "list_all (\<lambda>c. snd c = 60) calls2"
      using orchestrate_parallel_shape [OF implementation_tasks_nonempty, of e self1 w1] by blast
    define self2 where "self2 = self1\<lparr>results := results self1 @ irs\<rparr>"
    obtain rrs w3 calls3 where
      r: "orchestrate_parallel e (review_tasks irs) (self2, w2) =
            (Inr rrs, (self2\<lparr>results := results self2 @ rrs\<rparr>, w3))"
      and rl: "length rrs = length (review_tasks irs)"
      and rc: "clock_reads w3 = clock_reads w2 + length (review_tasks irs)"
      and rk: "run_calls w3 = run_calls w2 @ calls3" "list_all (\<lambda>c. snd c = 60) calls3"
      using orchestrate_parallel_shape [OF review_tasks_nonempty, of e irs self2 w2] by blast
    have run: "run_feature_pipeline e f (self, w) =
        (Inr (list_all success (irs @ rrs)), (self\<lparr>results := results self @ (prs @ irs @ rrs)\<rparr>, w3))"
      using True p i r by (simp add: run_feature_pipeline_def self1_def self2_def)
    have clock: "clock_reads w3 = clock_reads w + length (prs @ irs @ rrs)"
      using pl pc il ic rl rc by simp
    have calls: "run_calls w3 = run_calls w @ (calls1 @ calls2 @ calls3)"
      "list_all (\<lambda>c. snd c = 60) (calls1 @ calls2 @ calls3)"
      using pk ik rk by simp_all
    show ?thesis using run clock calls by blast
  qed
qed

text \<open>
  C2: For every feature description, if the result of the planning task is not
  successful, \<open>run_feature_pipeline\<close> returns \<open>False\<close>, and the state it leaves is the
  state after the call of the planner alone with the planner's result appended to the
  history: no task of the implementation phase or of the review phase is dispatched.
\<close>

theorem planning_failure_halts:
  assumes "spawn_agent e ''planner''
             (PDict [(''request'', PStr feature_request), (''workspace'', PStr (workspace_path self))])
             (self, w) = (Inr r, (self, w1))"
    and "\<not> success r"
  shows "run_feature_pipeline e feature_request (self, w) =
           (Inr False, (self\<lparr>results := results self @ [r]\<rparr>, w1))"
proof -
  have "orchestrate_parallel e (planning_tasks self feature_request) (self, w) =
          (Inr [r], (self\<lparr>results := results self @ [r]\<rparr>, w1))"
    unfolding planning_tasks_def
    by (rule orchestrate_parallel_single) (simp add: assms(1))
  then show ?thesis using assms(2) by (simp add: run_feature_pipeline_def)
qed

theorem planning_failure_halts_witness:
  "spawn_agent demo_env ''planner''
     (PDict [(''request'', PStr ''login page''),
             (''workspace'', PStr (workspace_path (fst (pipeline_state ''echo_fail.py'' ''echo_ok.py''))))])
     (fst (pipeline_state ''echo_fail.py'' ''echo_ok.py''), demo_world) =
     (Inr \<lparr>agent_name = ''planner'', success = False, output = ''boom'', artifacts = [],
           timestamp = ''2024-01-01T00:00:00''\<rparr>,
      (fst (pipeline_state ''echo_fail.py'' ''echo_ok.py''),
       \<lparr>run_calls = [([''python3'', ''echo_fail.py'', ''{}''], 60)], clock_reads = 1\<rparr>)) \<and>
   run_feature_pipeline demo_env ''login page''
     (fst (pipeline_state ''echo_fail.py'' ''echo_ok.py''), demo_world) =
     (Inr False,
      (fst (pipeline_state ''echo_fail.py'' ''echo_ok.py''))
         \<lparr>results := [\<lparr>agent_name = ''planner'', success = False, output = ''boom'',
                       artifacts = [], timestamp = ''2024-01-01T00:00:00''\<rparr>]\<rparr>,
      \<lparr>run_calls = [([''python3'', ''echo_fail.py'', ''{}''], 60)], clock_reads = 1\<rparr>)"
proof -
  have sp: "spawn_agent demo_env ''planner''
     (PDict [(''request'', PStr ''login page''),
             (''workspace'', PStr (workspace_path (fst (pipeline_state ''echo_fail.py'' ''echo_ok.py''))))])
     (fst (pipeline_state ''echo_fail.py'' ''echo_ok.py''), demo_world) =
     (Inr \<lparr>agent_name = ''planner'', success = False, output = ''boom'', artifacts = [],
           timestamp = ''2024-01-01T00:00:00''\<rparr>,
      (fst (pipeline_state ''echo_fail.py'' ''echo_ok.py''),
       \<lparr>run_calls = [([''python3'', ''echo_fail.py'', ''{}''], 60)], clock_reads = 1\<rparr>))"
    by (simp add: spawn_agent_def spawn_try_def new_AgentResult_def demo_defs)
  have res: "results (fst (pipeline_state ''echo_fail.py'' ''echo_ok.py'')) = []"
    by (simp add: demo_defs)
  show ?thesis
    using planning_failure_halts [OF sp] sp res by simp
qed

text \<open>
  C3: When the planning phase succeeds, the batch of the three implementation tasks
  runs, and then the review task is dispatched whatever the results of the three are;
  the boolean that \<open>run_feature_pipeline\<close> returns is the conjunction of the success
  flags of the implementation results and of the review result.
\<close>

theorem pipeline_after_planning:
  assumes "orchestrate_parallel e (planning_tasks self feature_request) (self, w) =
             (Inr planning_results, s1)"
    and "list_all success planning_results"
  shows "\<exists>impl_results s2 review s3.
           orchestrate_parallel e implementation_tasks s1 = (Inr impl_results, s2) \<and>
           length impl_results = 3 \<and>
           mset (map agent_name impl_results) = {#''refactor'', ''test_gen'', ''doc_gen''#} \<and>
           orchestrate_parallel e (review_tasks impl_results) s2 = (Inr [review], s3) \<and>
           agent_name review = ''reviewer'' \<and>
           results (fst s3) = results (fst s1) @ impl_results @ [review] \<and>
           run_feature_pipeline e feature_request (self, w) =
             (Inr (list_all success (impl_results @ [review])), s3)"
proof -
  obtain self1 w1 where s1: "s1 = (self1, w1)" by (cases s1)
  obtain impl_results w2 where
    impl: "orchestrate_parallel e implementation_tasks (self1, w1) =
             (Inr impl_results, (self1\<lparr>results := results self1 @ impl_results\<rparr>, w2))"
    and names: "mset (map agent_name impl_results) = mset (map agent implementation_tasks)"
    and len: "length impl_results = length implementation_tasks"
    using orchestrate_parallel_shape [OF implementation_tasks_nonempty, of e self1 w1] by blast
  define self2 where "self2 = self1\<lparr>results := results self1 @ impl_results\<rparr>"
  obtain review_results w3 where
    rev: "orchestrate_parallel e (review_tasks impl_results) (self2, w2) =
             (Inr review_results, (self2\<lparr>results := results self2 @ review_results\<rparr>, w3))"
    and rnames: "mset (map agent_name review_results) = mset (map agent (review_tasks impl_results))"
    and rlen: "length review_results = length (review_tasks impl_results)"
    using orchestrate_parallel_shape [OF review_tasks_nonempty, of e impl_results self2 w2] by blast
  from rlen obtain review where r1: "review_results = [review]"
    by (cases review_results) (simp_all add: review_tasks_def)
  have rn: "agent_name review = ''reviewer''"
    using rnames by (simp add: r1 review_tasks_def)
  have n3: "length impl_results = 3"
    using len by (simp add: implementation_tasks_def)
  have ms: "mset (map agent_name impl_results) = {#''refactor'', ''test_gen'', ''doc_gen''#}"
    using names by (simp add: implementation_tasks_def add_mset_commute)
  have run: "run_feature_pipeline e feature_request (self, w) =
      (Inr (list_all success (impl_results @ [review])),
       (self2\<lparr>results := results self2 @ [review]\<rparr>, w3))"
    using assms impl rev by (simp add: run_feature_pipeline_def s1 self2_def r1)
  show ?thesis
    using impl rev n3 ms rn run unfolding s1 r1 self2_def
    by (intro exI [of _ impl_results] exI [of _ "(self1\<lparr>results := results self1 @ impl_results\<rparr>, w2)"]
          exI [of _ review]
          exI [of _ "(self1\<lparr>results := results self1 @ impl_results @ [review]\<rparr>, w3)"]) simp
qed

text \<open>
  With a planner that succeeds and a refactoring agent that fails, the review still
  runs and the pipeline returns \<open>False\<close>.
\<close>

theorem pipeline_after_planning_witness:
  "orchestrate_parallel demo_env
      (planning_tasks (fst (pipeline_state ''echo_ok.py'' ''echo_fail.py'')) ''login page'')
      (fst (pipeline_state ''echo_ok.py'' ''echo_fail.py''), demo_world) =
     (Inr [\<lparr>agent_name = ''planner'', success = True, output = ''hello'', artifacts = [],
            timestamp = ''2024-01-01T00:00:00''\<rparr>],
      (fst (pipeline_state ''echo_ok.py'' ''echo_fail.py''))
        \<lparr>results := [\<lparr>agent_name = ''planner'', success = True, output = ''hello'',
                      artifacts = [], timestamp = ''2024-01-01T00:00:00''\<rparr>]\<rparr>,
      \<lparr>run_calls = [([''python3'', ''echo_ok.py'', ''{}''], 60)], clock_reads = 1\<rparr>) \<and>
   list_all success [\<lparr>agent_name = ''planner'', success = True, output = ''hello'', artifacts = [],
            timestamp = ''2024-01-01T00:00:00''\<rparr>] \<and>
   (\<exists>impl_results s2 review s3.
      length impl_results = 3 \<and>
      mset (map agent_name impl_results) = {#''refactor'', ''test_gen'', ''doc_gen''#} \<and>
      orchestrate_parallel demo_env (review_tasks impl_results) s2 = (Inr [review], s3) \<and>
      agent_name review = ''reviewer'' \<and>
      run_feature_pipeline demo_env ''login page''
        (fst (pipeline_state ''echo_ok.py'' ''echo_fail.py''), demo_world) =
        (Inr (list_all success (impl_results @ [review])), s3)) \<and>
   fst (run_feature_pipeline demo_env ''login page''
        (fst (pipeline_state ''echo_ok.py'' ''echo_fail.py''), demo_world)) = Inr False \<and>
   map agent_name (results (fst (snd (run_feature_pipeline demo_env ''login page''
        (fst (pipeline_state ''echo_ok.py'' ''echo_fail.py''), demo_world))))) =
     [''planner'', ''doc_gen'', ''test_gen'', ''refactor'', ''reviewer'']"
proof -
  have p: "orchestrate_parallel demo_env
      (planning_tasks (fst (pipeline_state ''echo_ok.py'' ''echo_fail.py'')) ''login page'')
      (fst (pipeline_state ''echo_ok.py'' ''echo_fail.py''), demo_world) =
     (Inr [\<lparr>agent_name = ''planner'', success = True, output = ''hello'', artifacts = [],
            timestamp = ''2024-01-01T00:00:00''\<rparr>],
      (fst (pipeline_state ''echo_ok.py'' ''echo_fail.py''))
        \<lparr>results := [\<lparr>agent_name = ''planner'', success = True, output = ''hello'',
                      artifacts = [], timestamp = ''2024-01-01T00:00:00''\<rparr>]\<rparr>,
      \<lparr>run_calls = [([''python3'', ''echo_ok.py'', ''{}''], 60)], clock_reads = 1\<rparr>)"
    by (simp add: planning_tasks_def batch_defs spawn_defs demo_defs)
  have ok: "list_all success [\<lparr>agent_name = ''planner'', success = True, output = ''hello'',
      artifacts = [], timestamp = ''2024-01-01T00:00:00''\<rparr>]"
    by simp
  have run: "fst (run_feature_pipeline demo_env ''login page''
        (fst (pipeline_state ''echo_ok.py'' ''echo_fail.py''), demo_world)) = Inr False"
    by code_simp
  have hist: "map agent_name (results (fst (snd (run_feature_pipeline demo_env ''login page''
        (fst (pipeline_state ''echo_ok.py'' ''echo_fail.py''), demo_world))))) =
     [''planner'', ''doc_gen'', ''test_gen'', ''refactor'', ''reviewer'']"
    by code_simp
  show ?thesis
    using pipeline_after_planning [OF p ok] p ok run hist by blast
qed

subsection \<open>An agent whose script does not exist\<close>

text \<open>
  C5: An agent registered with a path that does not exist has \<open>active = False\<close>, fixed
  at registration. As long as its entry stands, every call of \<open>spawn_agent\<close> for it, in
  whatever environment, returns the failure that names the script, without a call of
  \<open>subprocess.run\<close>; and batches, the pipeline and the summary leave the registry as it
  is.
\<close>

theorem inactive_agent_short_circuits:
  assumes "\<not> path_exists e script_path"
    and "agents self name = agents (fst (register_agent e name script_path descr s0)) name"
  shows "agents self name = Some \<lparr>script = script_path, description = descr, active = False\<rparr> \<and>
         spawn_agent e' name task_data (self, w) =
           (Inr \<lparr>agent_name = name, success = False,
                 output = ''Agent script '' @ script_path @ '' not found'', artifacts = [],
                 timestamp = now_isoformat e' (clock_reads w)\<rparr>,
            (self, w\<lparr>clock_reads := Suc (clock_reads w)\<rparr>)) \<and>
         agents (fst (snd (orchestrate_parallel e' tasks (self, w)))) = agents self \<and>
         agents (fst (snd (run_feature_pipeline e' f (self, w)))) = agents self \<and>
         snd (get_summary (self, w)) = (self, w)"
proof -
  have entry: "agents self name = Some \<lparr>script = script_path, description = descr, active = False\<rparr>"
    using assms by (cases s0) (simp add: register_agent_def)
  then have "spawn_agent e' name task_data (self, w) =
           (Inr \<lparr>agent_name = name, success = False,
                 output = ''Agent script '' @ script_path @ '' not found'', artifacts = [],
                 timestamp = now_isoformat e' (clock_reads w)\<rparr>,
            (self, w\<lparr>clock_reads := Suc (clock_reads w)\<rparr>))"
    by (simp add: spawn_agent_def new_AgentResult_def)
  moreover have "agents (fst (snd (run_feature_pipeline e' f (self, w)))) = agents self"
    using run_feature_pipeline_shape [of e' f self w] by auto
  moreover have "snd (get_summary (self, w)) = (self, w)"
    by (simp add: get_summary_def Let_def)
  ultimately show ?thesis
    using entry orchestrate_parallel_registry [of e' tasks self w] by simp
qed

theorem inactive_agent_short_circuits_witness:
  "\<not> path_exists demo_env ''missing.py'' \<and>
   agents (fst demo_state) ''ghost'' =
     Some \<lparr>script = ''missing.py'', description = ''no script'', active = False\<rparr> \<and>
   spawn_agent demo_env ''ghost'' (PDict []) (fst demo_state, demo_world) =
     (Inr \<lparr>agent_name = ''ghost'', success = False,
           output = ''Agent script missing.py not found'', artifacts = [],
           timestamp = ''2024-01-01T00:00:00''\<rparr>,
      (fst demo_state, \<lparr>run_calls = [], clock_reads = 1\<rparr>))"
proof -
  have e: "\<not> path_exists demo_env ''missing.py''"
    by (simp add: demo_env_def)
  have a: "agents (fst demo_state) ''ghost'' =
     agents (fst (register_agent demo_env ''ghost'' ''missing.py'' ''no script''
        (init_orchestrator ''.'', demo_world))) ''ghost''"
    by (simp add: demo_defs)
  show ?thesis
    using inactive_agent_short_circuits [OF e a, of demo_env "PDict []" demo_world] e
    by (simp add: demo_env_def demo_world_def)
qed

subsection \<open>The timeout\<close>

text \<open>
  C7, as the code has it: the timeout is the constant 60 of \<open>spawn_agent\<close>; every call
  of \<open>subprocess.run\<close> made by a direct call, by a batch or by the pipeline has the
  timeout 60, and there is no parameter for it. When \<open>subprocess.run\<close> raises
  \<open>TimeoutExpired\<close>, the result is a failure with the output
  \<open>Agent execution timeout\<close>.
\<close>

theorem timeout_is_sixty:
  "(\<exists>calls. run_calls (snd (snd (spawn_agent e name task_data (self, w)))) = run_calls w @ calls \<and>
      list_all (\<lambda>c. snd c = 60) calls) \<and>
   (\<exists>calls. run_calls (snd (snd (orchestrate_parallel e tasks (self, w)))) = run_calls w @ calls \<and>
      list_all (\<lambda>c. snd c = 60) calls) \<and>
   (\<exists>calls. run_calls (snd (snd (run_feature_pipeline e f (self, w)))) = run_calls w @ calls \<and>
      list_all (\<lambda>c. snd c = 60) calls) \<and>
   (agents self name = Some info \<and> active info \<and> json_dumps e task_data = Inr task_json \<and>
    subprocess_run e (length (run_calls w)) [''python3'', script info, task_json] 60 =
      Inl TimeoutExpired \<longrightarrow>
    fst (spawn_agent e name task_data (self, w)) =
      Inr \<lparr>agent_name = name, success = False, output = ''Agent execution timeout'',
           artifacts = [], timestamp = now_isoformat e (clock_reads w)\<rparr>)"
proof -
  have one: "\<exists>calls. run_calls (snd (snd (spawn_agent e name task_data (self, w)))) =
      run_calls w @ calls \<and> list_all (\<lambda>c. snd c = 60) calls"
  proof -
    obtain r w' where "spawn_agent e name task_data (self, w) = (Inr r, (self, w'))"
      and "run_calls w' = run_calls w \<or> (\<exists>argv. run_calls w' = run_calls w @ [(argv, 60)])"
      using spawn_agent_shape [of e name task_data self w] by blast
    then show ?thesis by (auto intro: exI [of _ "[]"])
  qed
  have batch: "\<exists>calls. run_calls (snd (snd (orchestrate_parallel e tasks (self, w)))) =
      run_calls w @ calls \<and> list_all (\<lambda>c. snd c = 60) calls"
  proof (cases "tasks = []")
    case True
    then show ?thesis by (simp add: orchestrate_parallel_empty)
  next
    case False
    then show ?thesis using orchestrate_parallel_shape [of tasks e self w] by auto
  qed
  have pipe: "\<exists>calls. run_calls (snd (snd (run_feature_pipeline e f (self, w)))) =
      run_calls w @ calls \<and> list_all (\<lambda>c. snd c = 60) calls"
    using run_feature_pipeline_shape [of e f self w] by auto
  have late: "agents self name = Some info \<and> active info \<and> json_dumps e task_data = Inr task_json \<and>
    subprocess_run e (length (run_calls w)) [''python3'', script info, task_json] 60 =
      Inl TimeoutExpired \<longrightarrow>
    fst (spawn_agent e name task_data (self, w)) =
      Inr \<lparr>agent_name = name, success = False, output = ''Agent execution timeout'',
           artifacts = [], timestamp = now_isoformat e (clock_reads w)\<rparr>"
    by (simp add: spawn_defs)
  from one batch pipe late show ?thesis by blast
qed

theorem timeout_is_sixty_witness:
  "agents (fst demo_state) ''hanger'' =
      Some \<lparr>script = ''hang.py'', description = ''never ends'', active = True\<rparr> \<and>
   json_dumps demo_env (PDict []) = Inr ''{}'' \<and>
   subprocess_run demo_env 0 [''python3'', ''hang.py'', ''{}''] 60 = Inl TimeoutExpired \<and>
   fst (spawn_agent demo_env ''hanger'' (PDict []) (fst demo_state, demo_world)) =
      Inr \<lparr>agent_name = ''hanger'', success = False, output = ''Agent execution timeout'',
           artifacts = [], timestamp = ''2024-01-01T00:00:00''\<rparr> \<and>
   run_calls (snd (snd (spawn_agent demo_env ''hanger'' (PDict []) (fst demo_state, demo_world)))) =
      [([''python3'', ''hang.py'', ''{}''], 60)]"
proof -
  have a: "agents (fst demo_state) ''hanger'' =
      Some \<lparr>script = ''hang.py'', description = ''never ends'', active = True\<rparr>"
    by (simp add: demo_defs)
  have d: "json_dumps demo_env (PDict []) = Inr ''{}''"
    by (simp add: demo_defs)
  have r: "subprocess_run demo_env 0 [''python3'', ''hang.py'', ''{}''] 60 = Inl TimeoutExpired"
    by (simp add: demo_defs)
  have c: "run_calls (snd (snd (spawn_agent demo_env ''hanger'' (PDict [])
      (fst demo_state, demo_world)))) = [([''python3'', ''hang.py'', ''{}''], 60)]"
    by (simp add: spawn_defs demo_defs)
  have w0: "length (run_calls demo_world) = 0" "clock_reads demo_world = 0"
    by (simp_all add: demo_world_def)
  have n: "now_isoformat demo_env 0 = ''2024-01-01T00:00:00''"
    by (simp add: demo_env_def)
  show ?thesis
    using timeout_is_sixty [of demo_env "''hanger''" "PDict []" "fst demo_state" demo_world
        "[]" "''''" "\<lparr>script = ''hang.py'', description = ''never ends'', active = True\<rparr>" "''{}''"]
      a d r c w0 n
    by simp
qed

text \<open>
  C7 as stated fails: a script that needs 45 seconds is stopped by a timeout of 30
  seconds, but in a batch it runs under the timeout 60 and succeeds; and the output of a
  run that times out is not \<open>execution timeout\<close>.
\<close>

theorem batch_timeout_counterexample:
  "subprocess_run demo_env 0 [''python3'', ''sleep45.py'', ''{}''] 30 = Inl TimeoutExpired \<and>
   orchestrate_parallel demo_env [\<lparr>agent = ''sleeper'', data = PDict []\<rparr>] demo_state =
     (Inr [\<lparr>agent_name = ''sleeper'', success = True, output = ''done'', artifacts = [],
            timestamp = ''2024-01-01T00:00:00''\<rparr>],
      (fst demo_state)
        \<lparr>results := [\<lparr>agent_name = ''sleeper'', success = True, output = ''done'',
                      artifacts = [], timestamp = ''2024-01-01T00:00:00''\<rparr>]\<rparr>,
      \<lparr>run_calls = [([''python3'', ''sleep45.py'', ''{}''], 60)], clock_reads = 1\<rparr>) \<and>
   fst (spawn_agent demo_env ''hanger'' (PDict []) demo_state) =
     Inr \<lparr>agent_name = ''hanger'', success = False, output = ''Agent execution timeout'',
          artifacts = [], timestamp = ''2024-01-01T00:00:00''\<rparr> \<and>
   ''Agent execution timeout'' \<noteq> ''execution timeout''"
  by (simp add: batch_defs spawn_defs demo_defs)

subsection \<open>The history\<close>

text \<open>
  The futures of a batch hold the results that the calls of \<open>spawn_agent\<close> for its
  tasks returned, one call and one reading of the clock per task; the batch returns
  and stores them in their order of completion.
\<close>

lemma run_tasks_created:
  "\<exists>created w'. run_tasks e tasks (self, w) = (map Inr created, (self, w')) \<and>
     list_all2 (\<lambda>t r. \<exists>w0 w1. spawn_agent e (agent t) (data t) (self, w0) = (Inr r, (self, w1)))
       tasks created \<and>
     clock_reads w' = clock_reads w + length tasks"
proof (induction tasks arbitrary: w)
  case Nil
  show ?case by simp
next
  case (Cons t ts)
  obtain r w1 where sp: "spawn_agent e (agent t) (data t) (self, w) = (Inr r, (self, w1))"
    and c1: "clock_reads w1 = Suc (clock_reads w)"
    using spawn_agent_shape [of e "agent t" "data t" self w] by blast
  obtain created w2 where rt: "run_tasks e ts (self, w1) = (map Inr created, (self, w2))"
    and all: "list_all2 (\<lambda>t r. \<exists>w0 w1. spawn_agent e (agent t) (data t) (self, w0) =
        (Inr r, (self, w1))) ts created"
    and c2: "clock_reads w2 = clock_reads w1 + length ts"
    using Cons.IH [of w1] by blast
  have "run_tasks e (t # ts) (self, w) = (map Inr (r # created), (self, w2))"
    using sp rt by simp
  moreover have "list_all2 (\<lambda>t r. \<exists>w0 w1. spawn_agent e (agent t) (data t) (self, w0) =
        (Inr r, (self, w1))) (t # ts) (r # created)"
    using sp all by auto
  moreover have "clock_reads w2 = clock_reads w + length (t # ts)"
    using c1 c2 by simp
  ultimately show ?case by blast
qed

lemma orchestrate_parallel_created:
  assumes "run_tasks e tasks (self, w) = (map Inr created, (self, w'))" and "tasks \<noteq> []"
  shows "orchestrate_parallel e tasks (self, w) =
           (Inr (completion_order (completion e (clock_reads w)) created),
            (self\<lparr>results :=
                    results self @ completion_order (completion e (clock_reads w)) created\<rparr>,
             w'))"
proof -
  have "0 < min (int (length tasks)) 4"
    using assms(2) by simp
  then obtain n where pool: "ThreadPoolExecutor (min (int (length tasks)) 4) = Inr n"
    by (simp add: ThreadPoolExecutor_def)
  show ?thesis
    using pool assms(1)
      collect_results [of "completion_order (completion e (clock_reads w)) created" "[]" self]
    by (simp add: orchestrate_parallel_def completion_order_map)
qed

text \<open>
  C8, as the code has it: the results that \<open>orchestrate_parallel\<close> appends to the
  history are the results that the calls of \<open>spawn_agent\<close> for the tasks of the batch
  created, each once, in the order in which the batch returns them; the pipeline
  appends the results of its planning batch and, when planning succeeds, those of the
  implementation and review batches. A direct call of \<open>spawn_agent\<close> creates and
  returns an \<open>AgentResult\<close> and leaves the orchestrator, and with it the history, as it
  is.
\<close>

theorem history_holds_batch_results:
  "(\<exists>r w'. spawn_agent e name task_data (self, w) = (Inr r, (self, w')) \<and>
      clock_reads w' = Suc (clock_reads w)) \<and>
   (\<exists>created rs w'.
      run_tasks e tasks (self, w) = (map Inr created, (self, w')) \<and>
      list_all2 (\<lambda>t r. \<exists>w0 w1. spawn_agent e (agent t) (data t) (self, w0) = (Inr r, (self, w1)))
        tasks created \<and>
      length created = length tasks \<and>
      clock_reads w' = clock_reads w + length tasks \<and>
      mset rs = mset created \<and>
      (tasks \<noteq> [] \<longrightarrow>
         orchestrate_parallel e tasks (self, w) =
           (Inr rs, (self\<lparr>results := results self @ rs\<rparr>, w')))) \<and>
   (\<exists>prs s1. orchestrate_parallel e (planning_tasks self f) (self, w) = (Inr prs, s1) \<and>
      results (fst s1) = results self @ prs \<and>
      (if list_all success prs
       then \<exists>irs s2 rrs s3.
              orchestrate_parallel e implementation_tasks s1 = (Inr irs, s2) \<and>
              orchestrate_parallel e (review_tasks irs) s2 = (Inr rrs, s3) \<and>
              snd (run_feature_pipeline e f (self, w)) = s3 \<and>
              results (fst s3) = results self @ prs @ irs @ rrs
       else snd (run_feature_pipeline e f (self, w)) = s1))"
proof -
  have one: "\<exists>r w'. spawn_agent e name task_data (self, w) = (Inr r, (self, w')) \<and>
      clock_reads w' = Suc (clock_reads w)"
    using spawn_agent_shape [of e name task_data self w] by blast
  have batch: "\<exists>created rs w'.
      run_tasks e tasks (self, w) = (map Inr created, (self, w')) \<and>
      list_all2 (\<lambda>t r. \<exists>w0 w1. spawn_agent e (agent t) (data t) (self, w0) = (Inr r, (self, w1)))
        tasks created \<and>
      length created = length tasks \<and>
      clock_reads w' = clock_reads w + length tasks \<and>
      mset rs = mset created \<and>
      (tasks \<noteq> [] \<longrightarrow>
         orchestrate_parallel e tasks (self, w) =
           (Inr rs, (self\<lparr>results := results self @ rs\<rparr>, w')))"
  proof -
    obtain created w' where rt: "run_tasks e tasks (self, w) = (map Inr created, (self, w'))"
      and all: "list_all2 (\<lambda>t r. \<exists>w0 w1. spawn_agent e (agent t) (data t) (self, w0) =
        (Inr r, (self, w1))) tasks created"
      and clock: "clock_reads w' = clock_reads w + length tasks"
      using run_tasks_created [of e tasks self w] by blast
    define rs where "rs = completion_order (completion e (clock_reads w)) created"
    have "mset rs = mset created"
      by (simp add: rs_def completion_order_mset)
    moreover have "tasks \<noteq> [] \<longrightarrow> orchestrate_parallel e tasks (self, w) =
           (Inr rs, (self\<lparr>results := results self @ rs\<rparr>, w'))"
      using orchestrate_parallel_created [OF rt] by (simp add: rs_def)
    moreover have "length created = length tasks"
      using all by (simp add: list_all2_lengthD)
    ultimately show ?thesis using rt all clock by blast
  qed
  have pipe: "\<exists>prs s1. orchestrate_parallel e (planning_tasks self f) (self, w) = (Inr prs, s1) \<and>
      results (fst s1) = results self @ prs \<and>
      (if list_all success prs
       then \<exists>irs s2 rrs s3.
              orchestrate_parallel e implementation_tasks s1 = (Inr irs, s2) \<and>
              orchestrate_parallel e (review_tasks irs) s2 = (Inr rrs, s3) \<and>
              snd (run_feature_pipeline e f (self, w)) = s3 \<and>
              results (fst s3) = results self @ prs @ irs @ rrs
       else snd (run_feature_pipeline e f (self, w)) = s1)"
  proof -
    obtain prs w1 where
      p: "orchestrate_parallel e (planning_tasks self f) (self, w) =
            (Inr prs, (self\<lparr>results := results self @ prs\<rparr>, w1))"
      using orchestrate_parallel_shape [OF planning_tasks_nonempty, of e self f self w] by blast
    define self1 where "self1 = self\<lparr>results := results self @ prs\<rparr>"
    obtain irs w2 where
      i: "orchestrate_parallel e implementation_tasks (self1, w1) =
            (Inr irs, (self1\<lparr>results := results self1 @ irs\<rparr>, w2))"
      using orchestrate_parallel_shape [OF implementation_tasks_nonempty, of e self1 w1] by blast
    define self2 where "self2 = self1\<lparr>results := results self1 @ irs\<rparr>"
    obtain rrs w3 where
      r: "orchestrate_parallel e (review_tasks irs) (self2, w2) =
            (Inr rrs, (self2\<lparr>results := results self2 @ rrs\<rparr>, w3))"
      using orchestrate_parallel_shape [OF review_tasks_nonempty, of e irs self2 w2] by blast
    show ?thesis
    proof (cases "list_all success prs")
      case False
      then have "snd (run_feature_pipeline e f (self, w)) = (self1, w1)"
        using p by (simp add: run_feature_pipeline_def self1_def)
      then show ?thesis using False p by (auto simp: self1_def)
    next
      case True
      have "snd (run_feature_pipeline e f (self, w)) =
          (self2\<lparr>results := results self2 @ rrs\<rparr>, w3)"
        using True p i r by (simp add: run_feature_pipeline_def self1_def self2_def)
      moreover have "results (fst (self2\<lparr>results := results self2 @ rrs\<rparr>, w3)) =
          results self @ prs @ irs @ rrs"
        by (simp add: self1_def self2_def)
      ultimately show ?thesis
        using True p i r unfolding self1_def [symmetric] self2_def [symmetric]
        by (intro exI [of _ prs] exI [of _ "(self1, w1)"] conjI)
           (auto simp: self1_def)
    qed
  qed
  from one batch pipe show ?thesis by blast
qed

theorem history_holds_batch_results_witness:
  "demo_batch \<noteq> [] \<and>
   spawn_agent demo_env ''echo_ok'' (PDict []) (fst demo_state, demo_world) =
     (Inr \<lparr>agent_name = ''echo_ok'', success = True, output = ''hello'', artifacts = [],
           timestamp = ''2024-01-01T00:00:00''\<rparr>,
      (fst demo_state,
       \<lparr>run_calls = [([''python3'', ''echo_ok.py'', ''{}''], 60)], clock_reads = 1\<rparr>)) \<and>
   spawn_agent demo_env ''echo_fail'' (PDict [])
      (fst demo_state,
       \<lparr>run_calls = [([''python3'', ''echo_ok.py'', ''{}''], 60)], clock_reads = 1\<rparr>) =
     (Inr \<lparr>agent_name = ''echo_fail'', success = False, output = ''boom'', artifacts = [],
           timestamp = ''2024-01-01T00:00:00''\<rparr>,
      (fst demo_state,
       \<lparr>run_calls = [([''python3'', ''echo_ok.py'', ''{}''], 60),
                     ([''python3'', ''echo_fail.py'', ''{}''], 60)], clock_reads = 2\<rparr>)) \<and>
   (\<exists>created rs w'.
      run_tasks demo_env demo_batch (fst demo_state, demo_world) =
        (map Inr created, (fst demo_state, w')) \<and>
      length created = length demo_batch \<and>
      mset rs = mset created \<and>
      orchestrate_parallel demo_env demo_batch (fst demo_state, demo_world) =
        (Inr rs, ((fst demo_state)\<lparr>results := results (fst demo_state) @ rs\<rparr>, w'))) \<and>
   results (fst (snd (orchestrate_parallel demo_env demo_batch (fst demo_state, demo_world)))) =
     [\<lparr>agent_name = ''echo_ok'', success = True, output = ''hello'', artifacts = [],
        timestamp = ''2024-01-01T00:00:00''\<rparr>,
      \<lparr>agent_name = ''echo_fail'', success = False, output = ''boom'', artifacts = [],
        timestamp = ''2024-01-01T00:00:00''\<rparr>]"
proof -
  have ne: "demo_batch \<noteq> []"
    by (simp add: demo_batch_def)
  have s1: "spawn_agent demo_env ''echo_ok'' (PDict []) (fst demo_state, demo_world) =
     (Inr \<lparr>agent_name = ''echo_ok'', success = True, output = ''hello'', artifacts = [],
           timestamp = ''2024-01-01T00:00:00''\<rparr>,
      (fst demo_state,
       \<lparr>run_calls = [([''python3'', ''echo_ok.py'', ''{}''], 60)], clock_reads = 1\<rparr>))"
    by (simp add: spawn_defs demo_defs)
  have s2: "spawn_agent demo_env ''echo_fail'' (PDict [])
      (fst demo_state,
       \<lparr>run_calls = [([''python3'', ''echo_ok.py'', ''{}''], 60)], clock_reads = 1\<rparr>) =
     (Inr \<lparr>agent_name = ''echo_fail'', success = False, output = ''boom'', artifacts = [],
           timestamp = ''2024-01-01T00:00:00''\<rparr>,
      (fst demo_state,
       \<lparr>run_calls = [([''python3'', ''echo_ok.py'', ''{}''], 60),
                     ([''python3'', ''echo_fail.py'', ''{}''], 60)], clock_reads = 2\<rparr>))"
    by (simp add: spawn_defs demo_defs)
  have hist: "results (fst (snd (orchestrate_parallel demo_env demo_batch
        (fst demo_state, demo_world)))) =
     [\<lparr>agent_name = ''echo_ok'', success = True, output = ''hello'', artifacts = [],
        timestamp = ''2024-01-01T00:00:00''\<rparr>,
      \<lparr>agent_name = ''echo_fail'', success = False, output = ''boom'', artifacts = [],
        timestamp = ''2024-01-01T00:00:00''\<rparr>]"
    by code_simp
  obtain created rs w' where
    "run_tasks demo_env demo_batch (fst demo_state, demo_world) =
       (map Inr created, (fst demo_state, w'))"
    "length created = length demo_batch"
    "mset rs = mset created"
    "demo_batch \<noteq> [] \<longrightarrow> orchestrate_parallel demo_env demo_batch (fst demo_state, demo_world) =
        (Inr rs, ((fst demo_state)\<lparr>results := results (fst demo_state) @ rs\<rparr>, w'))"
    using history_holds_batch_results [of demo_env "''echo_ok''" "PDict []" "fst demo_state"
        demo_world demo_batch "''login page''"]
    by blast
  with ne s1 s2 hist show ?thesis by blast
qed

text \<open>
  C8 as stated fails: after one direct call of \<open>spawn_agent\<close> on a new orchestrator, a
  child process has run and its result has been returned, but the history is empty and
  the summary counts no result.
\<close>

theorem direct_spawn_not_recorded_counterexample:
  "results (fst demo_state) = [] \<and>
   spawn_agent demo_env ''echo_ok'' (PDict []) demo_state =
     (Inr \<lparr>agent_name = ''echo_ok'', success = True, output = ''hello'', artifacts = [],
           timestamp = ''2024-01-01T00:00:00''\<rparr>,
      fst demo_state,
      \<lparr>run_calls = [([''python3'', ''echo_ok.py'', ''{}''], 60)], clock_reads = 1\<rparr>) \<and>
   total_agents (fst (get_summary (snd (spawn_agent demo_env ''echo_ok'' (PDict []) demo_state)))) = 0"
  by (simp add: spawn_defs demo_defs get_summary_def)

subsection \<open>The summary\<close>

text \<open>
  Rounding to the nearest integer, and the power of two at or below a positive
  rational.
\<close>

lemma round_half_even_near: "\<bar>of_int (round_half_even y) - y\<bar> \<le> 1 / 2"
proof -
  have "of_int \<lfloor>y\<rfloor> \<le> y" "y < of_int \<lfloor>y\<rfloor> + 1"
    by linarith+
  then show ?thesis
    by (auto simp: round_half_even_def Let_def)
qed

lemma round_half_even_eqI:
  assumes "\<bar>of_int n - y\<bar> < 1 / 2"
  shows "round_half_even y = n"
proof (cases "of_int n \<le> y")
  case True
  with assms have "\<lfloor>y\<rfloor> = n"
    by (intro floor_unique) linarith+
  with assms True show ?thesis
    by (simp add: round_half_even_def Let_def)
next
  case False
  with assms have f: "\<lfloor>y\<rfloor> = n - 1"
    by (intro floor_unique) (simp, linarith+)
  with assms False have "1 / 2 < y - of_int (n - 1)"
    by simp
  with f show ?thesis
    by (simp add: round_half_even_def Let_def)
qed

lemma bitlen_rat_bounds:
  assumes "0 < n"
  shows "2 powi (bitlen n - 1) \<le> (of_int n :: rat)" and "(of_int n :: rat) < 2 powi bitlen n"
proof -
  have b: "2 ^ nat (bitlen n - 1) \<le> n" "n < 2 ^ nat (bitlen n)"
    using bitlen_bounds [OF assms] by simp_all
  have pos: "1 \<le> bitlen n"
    using assms by (auto simp: bitlen_alt_def)
  have "(of_int (2 ^ nat (bitlen n - 1)) :: rat) \<le> of_int n"
    using b(1) by (simp only: of_int_le_iff)
  then show "2 powi (bitlen n - 1) \<le> (of_int n :: rat)"
    using pos by (simp add: power_int_def)
  have "(of_int n :: rat) < of_int (2 ^ nat (bitlen n))"
    using b(2) by (simp only: of_int_less_iff)
  then show "(of_int n :: rat) < 2 powi bitlen n"
    using pos by (simp add: power_int_def)
qed

lemma exponent_bounds:
  assumes "0 < x"
  shows "2 powi exponent x \<le> x" and "x < 2 powi (exponent x + 1)"
proof -
  obtain n d where q: "quotient_of x = (n, d)"
    by (cases "quotient_of x")
  have d: "0 < d"
    using q by (rule quotient_of_denom_pos)
  have x: "x = of_int n / of_int d"
    using q by (rule quotient_of_div)
  have n: "0 < n"
    using assms d x by (simp add: zero_less_divide_iff)
  define g where "g = bitlen n - bitlen d"
  have pd: "(2 :: rat) powi (a - b) = 2 powi a / 2 powi b" for a b
    by (rule power_int_diff) simp
  have lo: "2 powi (g - 1) \<le> x"
  proof -
    have "g - 1 = (bitlen n - 1) - bitlen d"
      by (simp add: g_def)
    then have "2 powi (g - 1) = 2 powi (bitlen n - 1) / (2 powi bitlen d :: rat)"
      by (simp only: pd)
    also have "\<dots> \<le> of_int n / 2 powi bitlen d"
      using bitlen_rat_bounds(1) [OF n] by (simp add: divide_right_mono)
    also have "\<dots> \<le> of_int n / of_int d"
      using bitlen_rat_bounds(2) [OF d] n d by (intro divide_left_mono) simp_all
    finally show ?thesis by (simp add: x)
  qed
  have hi: "x < 2 powi (g + 1)"
  proof -
    have "of_int n / of_int d \<le> of_int n / (2 powi (bitlen d - 1) :: rat)"
      using bitlen_rat_bounds(1) [OF d] n d by (intro divide_left_mono) simp_all
    also have "\<dots> < 2 powi bitlen n / 2 powi (bitlen d - 1)"
      using bitlen_rat_bounds(2) [OF n] by (simp add: divide_strict_right_mono)
    also have "\<dots> = 2 powi (bitlen n - (bitlen d - 1))"
      by (simp only: pd)
    also have "\<dots> = 2 powi (g + 1)"
      by (simp add: g_def algebra_simps)
    finally show ?thesis by (simp add: x)
  qed
  have e: "exponent x = (if 2 powi g \<le> x then g else g - 1)"
    by (simp add: exponent_def q g_def Let_def)
  show "2 powi exponent x \<le> x"
    using lo by (simp add: e)
  show "x < 2 powi (exponent x + 1)"
    using hi by (auto simp: e not_le)
qed

lemma exponent_eqI:
  assumes "0 < x" and "2 powi e \<le> x" and "x < 2 powi (e + 1)"
  shows "exponent x = e"
proof (rule antisym)
  show "exponent x \<le> e"
  proof (rule ccontr)
    assume "\<not> exponent x \<le> e"
    then have "e + 1 \<le> exponent x" by simp
    then have "(2 powi (e + 1) :: rat) \<le> 2 powi exponent x"
      by (intro power_int_increasing) simp_all
    with exponent_bounds(1) [OF assms(1)] assms(3) show False by simp
  qed
  show "e \<le> exponent x"
  proof (rule ccontr)
    assume "\<not> e \<le> exponent x"
    then have "exponent x + 1 \<le> e" by simp
    then have "(2 powi (exponent x + 1) :: rat) \<le> 2 powi e"
      by (intro power_int_increasing) simp_all
    with exponent_bounds(2) [OF assms(1)] assms(2) show False by simp
  qed
qed

text \<open>
  A rational between two neighbouring powers of two rounds to the multiple of the
  spacing that lies less than half a spacing away; in the normal range the rounding
  moves a number by at most the fraction \<open>1 / 2 ^ 53\<close> of itself.
\<close>

lemma float_round_eqI:
  assumes "0 < x" and "2 powi e \<le> x" and "x < 2 powi (e + 1)" and "- 1022 \<le> e"
    and "\<bar>of_int n - x / 2 powi (e - 52)\<bar> < 1 / 2"
  shows "float_round x = of_int n * 2 powi (e - 52)"
proof -
  have "exponent x = e"
    using assms(1-3) by (rule exponent_eqI)
  moreover have "round_half_even (x / 2 powi (e - 52)) = n"
    using assms(5) by (rule round_half_even_eqI)
  ultimately show ?thesis
    using assms(1,4) by (simp add: float_round_def Let_def max_def)
qed

lemma float_round_error:
  assumes "2 powi (- 1022) \<le> x"
  shows "\<bar>float_round x - x\<bar> \<le> x / 2 ^ 53"
proof -
  have pos: "0 < x"
    using assms by (rule less_le_trans [rotated]) simp
  define e where "e = exponent x"
  have b: "2 powi e \<le> x" "x < 2 powi (e + 1)"
    using exponent_bounds [OF pos] by (simp_all add: e_def)
  have normal: "- 1022 \<le> e"
  proof (rule ccontr)
    assume "\<not> - 1022 \<le> e"
    then have "e + 1 \<le> - 1022" by simp
    then have "(2 powi (e + 1) :: rat) \<le> 2 powi (- 1022)"
      by (intro power_int_increasing) simp_all
    with b(2) assms show False by simp
  qed
  define ulp :: rat where "ulp = 2 powi (e - 52)"
  have ulp: "0 < ulp"
    by (simp add: ulp_def)
  have fl: "float_round x = of_int (round_half_even (x / ulp)) * ulp"
    using pos normal by (simp add: float_round_def Let_def max_def e_def ulp_def)
  have "float_round x - x = (of_int (round_half_even (x / ulp)) - x / ulp) * ulp"
    using ulp by (simp add: fl left_diff_distrib)
  then have "\<bar>float_round x - x\<bar> = \<bar>of_int (round_half_even (x / ulp)) - x / ulp\<bar> * ulp"
    using ulp by (simp add: abs_mult)
  also have "\<dots> \<le> 1 / 2 * ulp"
    using round_half_even_near [of "x / ulp"] ulp by (intro mult_right_mono) simp_all
  also have "\<dots> = 2 powi e / 2 ^ 53"
    by (simp add: ulp_def power_int_diff)
  also have "\<dots> \<le> x / 2 ^ 53"
    using b(1) by (simp add: divide_right_mono)
  finally show ?thesis .
qed

text \<open>
  The two roundings of \<open>successful / total * 100\<close> together, and the rates of 11 out
  of 20 and of 1 out of 2.
\<close>

lemma rate_error:
  fixes k t :: nat
  assumes "0 < k" and "k \<le> t" and "t < 2 ^ 1022"
  shows "\<bar>float_round (float_round (of_nat k / of_nat t) * 100) - 100 * of_nat k / of_nat t\<bar>
           \<le> (100 * of_nat k / of_nat t) / 2 ^ 51"
proof -
  define q :: rat where "q = of_nat k / of_nat t"
  have t: "0 < t" using assms by simp
  have "(of_nat t :: rat) < of_nat (2 ^ 1022)"
    using assms(3) by (simp only: of_nat_less_iff)
  then have tr: "(of_nat t :: rat) < 2 ^ 1022"
    by simp
  have "1 / 2 ^ 1022 < 1 / (of_nat t :: rat)"
    using tr t by (intro divide_strict_left_mono) simp_all
  also have "\<dots> \<le> q"
    using assms(1) t by (simp add: q_def divide_right_mono)
  finally have small: "2 powi (- 1022) \<le> q"
    by (simp add: power_int_minus_divide)
  have qpos: "0 < q"
    using assms(1) t by (simp add: q_def)
  define r where "r = float_round q"
  have r: "\<bar>r - q\<bar> \<le> q / 2 ^ 53"
    unfolding r_def using small by (rule float_round_error)
  have "q / 2 ^ 53 \<le> q / 2"
    using qpos by (intro divide_left_mono) simp_all
  with r have rlo: "q / 2 \<le> r" and rhi: "r \<le> 2 * q"
    by linarith+
  have "2 powi (- 1022) \<le> r * 100"
    using small rlo qpos by linarith
  then have p: "\<bar>float_round (r * 100) - r * 100\<bar> \<le> r * 100 / 2 ^ 53"
    by (rule float_round_error)
  have "r * 100 / 2 ^ 53 \<le> 2 * q * 100 / 2 ^ 53"
    using rhi by (simp add: divide_right_mono)
  with p have p': "\<bar>float_round (r * 100) - r * 100\<bar> \<le> 200 * q / 2 ^ 53"
    by simp
  have "r * 100 - 100 * q = 100 * (r - q)"
    by simp
  then have "\<bar>r * 100 - 100 * q\<bar> = 100 * \<bar>r - q\<bar>"
    by (simp only: abs_mult)
  with r have d: "\<bar>r * 100 - 100 * q\<bar> \<le> 100 * q / 2 ^ 53"
    by simp
  have "\<bar>float_round (r * 100) - 100 * q\<bar> \<le> 200 * q / 2 ^ 53 + 100 * q / 2 ^ 53"
    using p' d by linarith
  also have "\<dots> \<le> 100 * q / 2 ^ 51"
    using qpos by simp
  finally show ?thesis
    by (simp add: r_def q_def)
qed

lemma float_round_eleven_twentieths:
  "float_round (11 / 20) = 4953959590107546 / 2 ^ 53"
  using float_round_eqI [of "11 / 20" "- 1" 4953959590107546] by simp

lemma rate_eleven_of_twenty:
  "float_round (float_round (11 / 20) * 100) = 55 + 1 / 2 ^ 47"
  using float_round_eqI [of "4953959590107546 / 2 ^ 53 * 100" 5 7740561859543041]
  by (simp add: float_round_eleven_twentieths)

lemma float_round_half: "float_round (1 / 2) = 1 / 2"
  using float_round_eqI [of "1 / 2" "- 1" "2 ^ 52"] by simp

lemma rate_one_of_two: "float_round (float_round (1 / 2) * 100) = 50"
  using float_round_eqI [of 50 5 "50 * 2 ^ 47"] by (simp add: float_round_half)

lemma count_ones: "sum_list (map (\<lambda>r. 1) xs) = int (length xs)"
  by (induction xs) simp_all

lemma get_summary_shape:
  "get_summary (self, w) =
     (\<lparr>total_agents = int (length (results self)),
       successful = int (length (filter success (results self))),
       failed = int (length (filter (\<lambda>r. \<not> success r) (results self))),
       success_rate =
         (if results self = [] then 0
          else float_round
                 (float_round (of_nat (length (filter success (results self))) /
                               of_nat (length (results self))) * 100)),
       summary_results = map (\<lambda>r. (agent_name r, success r, timestamp r)) (results self)\<rparr>,
      (self, w))"
proof -
  have "int (length (results self)) - int (length (filter success (results self))) =
      int (length (filter (\<lambda>r. \<not> success r) (results self)))"
    using sum_length_filter_compl [of success "results self"] by linarith
  then show ?thesis
    by (simp add: get_summary_def Let_def count_ones)
qed

lemma demo_history_counts:
  "length (filter success (results (demo_history k m))) = k"
  "length (filter (\<lambda>r. \<not> success r) (results (demo_history k m))) = m"
  "length (results (demo_history k m)) = k + m"
  by (simp_all add: demo_history_def init_orchestrator_def)

text \<open>
  C4, as the code has it: for a history with \<open>k\<close> successful and \<open>m\<close> failed results,
  \<open>get_summary\<close> returns the total \<open>k + m\<close>, \<open>k\<close> successful, \<open>m\<close> failed, and leaves the
  state as it is. The rate is 0 when the history is empty and otherwise the float
  \<open>successful / total * 100\<close>: the quotient \<open>k / (k + m)\<close> rounded to a float, times 100,
  rounded again. It differs from \<open>100 * k / (k + m)\<close> by at most the fraction
  \<open>1 / 2 ^ 51\<close> of that number, for every history of fewer than \<open>2 ^ 1022\<close> results.
\<close>

theorem get_summary_counts_rounded:
  assumes "length (filter success (results self)) = k"
    and "length (filter (\<lambda>r. \<not> success r) (results self)) = m"
    and "k + m < 2 ^ 1022"
  shows "\<exists>sm. get_summary (self, w) = (sm, (self, w)) \<and>
           total_agents sm = int (k + m) \<and> successful sm = int k \<and> failed sm = int m \<and>
           success_rate sm =
             (if k + m = 0 then 0
              else float_round (float_round (of_nat k / of_nat (k + m)) * 100)) \<and>
           \<bar>success_rate sm - 100 * of_nat k / of_nat (k + m)\<bar>
             \<le> (100 * of_nat k / of_nat (k + m)) / 2 ^ 51"
proof -
  have total: "length (results self) = k + m"
    using assms(1,2) sum_length_filter_compl [of success "results self"] by simp
  define rate :: rat where
    "rate = (if k + m = 0 then 0 else float_round (float_round (of_nat k / of_nat (k + m)) * 100))"
  have "\<bar>rate - 100 * of_nat k / of_nat (k + m)\<bar> \<le> (100 * of_nat k / of_nat (k + m)) / 2 ^ 51"
  proof (cases "k = 0")
    case True
    then show ?thesis by (simp add: rate_def float_round_def)
  next
    case False
    then show ?thesis
      using rate_error [of k "k + m"] assms(3) by (simp add: rate_def)
  qed
  moreover have "get_summary (self, w) =
     (\<lparr>total_agents = int (k + m), successful = int k, failed = int m, success_rate = rate,
       summary_results = map (\<lambda>r. (agent_name r, success r, timestamp r)) (results self)\<rparr>,
      (self, w))"
    using assms(1,2) total by (auto simp: get_summary_shape rate_def)
  ultimately show ?thesis by (simp add: rate_def)
qed

theorem get_summary_counts_rounded_witness:
  "length (filter success (results (demo_history 1 1))) = 1 \<and>
   length (filter (\<lambda>r. \<not> success r) (results (demo_history 1 1))) = 1 \<and>
   (1::nat) + 1 < 2 ^ 1022 \<and>
   (\<exists>sm. get_summary (demo_history 1 1, demo_world) = (sm, (demo_history 1 1, demo_world)) \<and>
      total_agents sm = 2 \<and> successful sm = 1 \<and> failed sm = 1 \<and> success_rate sm = 50 \<and>
      \<bar>success_rate sm - 100 * 1 / 2\<bar> \<le> (100 * 1 / 2) / 2 ^ 51)"
proof -
  have small: "(1::nat) + 1 < 2 ^ 1022"
    by simp
  show ?thesis
    using get_summary_counts_rounded [OF demo_history_counts(1) demo_history_counts(2) small,
        of demo_world]
      demo_history_counts [of 1 1] small
    by (auto simp: rate_one_of_two)
qed

text \<open>
  C4 as stated fails: with 11 successful and 9 failed results the rate is the float
  next above 55, which Python prints as 55.00000000000001, and not
  \<open>100 * 11 / 20 = 55\<close>.
\<close>

theorem rounded_rate_counterexample:
  "length (filter success (results (demo_history 11 9))) = 11 \<and>
   length (filter (\<lambda>r. \<not> success r) (results (demo_history 11 9))) = 9 \<and>
   success_rate (fst (get_summary (demo_history 11 9, demo_world))) = 55 + 1 / 2 ^ 47 \<and>
   (100 * 11 / (11 + 9) :: rat) = 55 \<and>
   success_rate (fst (get_summary (demo_history 11 9, demo_world))) \<noteq> 100 * 11 / (11 + 9)"
proof -
  have "success_rate (fst (get_summary (demo_history 11 9, demo_world))) = 55 + 1 / 2 ^ 47"
    using demo_history_counts [of 11 9]
    by (simp add: get_summary_shape rate_eleven_of_twenty) (simp add: demo_history_def)
  then show ?thesis
    using demo_history_counts [of 11 9] by simp
qed

end
